theory Spec2Isabelle
  imports Complex_Main
begin

section \<open>Respiratory-pattern scripts of TMLEC\_QRScan\<close>

text \<open>
  The Python scripts under \<^verbatim>\<open>python/\<close> and \<^verbatim>\<open>download_coco_model.py\<close> are embedded
  as HOL functions. Python floats are modelled as \<^typ>\<open>real\<close> (exact arithmetic, no
  rounding or overflow); where numpy can produce an infinity or NaN (a division by zero,
  the mean of an empty array) the value is a real extended by these. Python ints are
  \<^typ>\<open>int\<close> or \<^typ>\<open>nat\<close>, dictionaries are association lists in insertion order,
  exceptions are values, and the console is a list of messages. Files, the network and the
  library functions that read them are parameters of the model (a ``world'').
\<close>

subsection \<open>\<^verbatim>\<open>create_sample_model.py\<close>: the threshold-voting labels\<close>

text \<open>
  The body of the loop \<^verbatim>\<open>for i in range(100)\<close>: five independent \<^verbatim>\<open>if\<close> statements each
  add one to \<^verbatim>\<open>abnormal_factors\<close>, then the label is 1 when the count is at least 2.
\<close>

definition abnormal_factors :: "real \<Rightarrow> real \<Rightarrow> real \<Rightarrow> real \<Rightarrow> nat" where
  "abnormal_factors breathing_rate irregularity amplitude_var velocity =
     (if breathing_rate < 10 then 1 else 0)
   + (if breathing_rate > 24 then 1 else 0)
   + (if irregularity > 0.4 then 1 else 0)
   + (if amplitude_var > 40 then 1 else 0)
   + (if velocity > 8 then 1 else 0)"

definition sample_label :: "real \<Rightarrow> real \<Rightarrow> real \<Rightarrow> real \<Rightarrow> nat" where
  "sample_label breathing_rate irregularity amplitude_var velocity =
     (if abnormal_factors breathing_rate irregularity amplitude_var velocity \<ge> 2 then 1 else 0)"

text \<open>The label vector \<^verbatim>\<open>y\<close> for a feature matrix \<^verbatim>\<open>X\<close> (one row per sample).\<close>

definition sample_labels :: "(real \<times> real \<times> real \<times> real) list \<Rightarrow> nat list" where
  "sample_labels X = map (\<lambda>(r, i, a, v). sample_label r i a v) X"

text \<open>
  The criteria as the specification words them: four criteria, the first being
  ``rate below 10 or above 24''.
\<close>

definition criteria_met :: "real \<Rightarrow> real \<Rightarrow> real \<Rightarrow> real \<Rightarrow> nat" where
  "criteria_met rate irregularity amplitude_var velocity =
     (if rate < 10 \<or> rate > 24 then 1 else 0)
   + (if irregularity > 0.4 then 1 else 0)
   + (if amplitude_var > 40 then 1 else 0)
   + (if velocity > 8 then 1 else 0)"

subsection \<open>Floats of numpy\<close>

text \<open>
  A numpy float is a number, an infinity or NaN. \<^verbatim>\<open>np.mean\<close> and \<^verbatim>\<open>np.std\<close> (the
  population standard deviation) of an empty Python list are NaN (\<^verbatim>\<open>np_mean\<close>, \<^verbatim>\<open>np_std\<close>
  below; the empty column of a data frame is another matter, see \<^verbatim>\<open>column_std\<close>); a
  division of numpy floats by zero does not raise but gives an infinity, or NaN for
  \<open>0 / 0\<close>; comparisons with NaN are false.
\<close>

datatype npfloat = Num real | PosInf | NegInf | NaN

definition mean :: "real list \<Rightarrow> real" where
  "mean xs = sum_list xs / real (length xs)"

definition std :: "real list \<Rightarrow> real" where
  "std xs = sqrt (mean (map (\<lambda>x. (x - mean xs)\<^sup>2) xs))"

definition np_mean :: "real list \<Rightarrow> npfloat" where
  "np_mean xs = (if xs = [] then NaN else Num (mean xs))"

definition np_std :: "real list \<Rightarrow> npfloat" where
  "np_std xs = (if xs = [] then NaN else Num (std xs))"

fun np_divide :: "npfloat \<Rightarrow> npfloat \<Rightarrow> npfloat" where
  "np_divide (Num x) (Num y) =
     (if y \<noteq> 0 then Num (x / y)
      else if x > 0 then PosInf else if x < 0 then NegInf else NaN)"
| "np_divide (Num x) PosInf = Num 0"
| "np_divide (Num x) NegInf = Num 0"
| "np_divide PosInf (Num y) = (if y < 0 then NegInf else PosInf)"
| "np_divide NegInf (Num y) = (if y < 0 then PosInf else NegInf)"
| "np_divide _ _ = NaN"

fun np_gt :: "npfloat \<Rightarrow> real \<Rightarrow> bool" where
  "np_gt (Num x) c = (x > c)"
| "np_gt PosInf c = True"
| "np_gt NegInf c = False"
| "np_gt NaN c = False"

fun np_lt :: "npfloat \<Rightarrow> real \<Rightarrow> bool" where
  "np_lt (Num x) c = (x < c)"
| "np_lt PosInf c = False"
| "np_lt NegInf c = True"
| "np_lt NaN c = False"

text \<open>Values stored in the dictionaries that become rows of a data frame.\<close>

datatype pyval = PInt int | PFloat npfloat | PStr string

subsection \<open>Strings of Python\<close>

text \<open>\<^verbatim>\<open>sub in s\<close>, \<^verbatim>\<open>s.split(sep)\<close> for a non-empty separator and \<^verbatim>\<open>s.strip()\<close>.
  A character is a code point below 256; the white space that \<^verbatim>\<open>strip\<close> removes is, in
  this range, the codes 9 to 13, 28 to 32, 133 and 160.\<close>

fun is_prefix :: "string \<Rightarrow> string \<Rightarrow> bool" where
  "is_prefix [] s = True"
| "is_prefix (p # ps) [] = False"
| "is_prefix (p # ps) (c # cs) = (p = c \<and> is_prefix ps cs)"

fun py_in :: "string \<Rightarrow> string \<Rightarrow> bool" where
  "py_in sub [] = (sub = [])"
| "py_in sub (c # cs) = (is_prefix sub (c # cs) \<or> py_in sub cs)"

function split_from :: "string \<Rightarrow> string \<Rightarrow> string \<Rightarrow> string list" where
  "split_from sep piece [] = [piece]"
| "split_from sep piece (c # cs) =
     (if sep \<noteq> [] \<and> is_prefix sep (c # cs)
      then piece # split_from sep [] (drop (length sep) (c # cs))
      else split_from sep (piece @ [c]) cs)"
  by pat_completeness auto
termination
  by (relation "measure (\<lambda>(sep, piece, s). length s)") auto

definition py_split :: "string \<Rightarrow> string \<Rightarrow> string list" where
  "py_split s sep = split_from sep [] s"

definition is_space :: "char \<Rightarrow> bool" where
  "is_space c =
     (let n = (of_char c :: nat)
      in (9 \<le> n \<and> n \<le> 13) \<or> (28 \<le> n \<and> n \<le> 32) \<or> n = 133 \<or> n = 160)"

definition strip :: "string \<Rightarrow> string" where
  "strip s = rev (dropWhile is_space (rev (dropWhile is_space s)))"

text \<open>Exceptions the scripts can meet, as values; indexing a list out of range raises
  \<^verbatim>\<open>IndexError\<close>.\<close>

datatype py_exception =
  IOError | AttributeError | IndexError | ValueError | TypeError | KeyError
  | UnboundLocalError | ZeroDivisionError | OtherError

definition index :: "'a list \<Rightarrow> nat \<Rightarrow> py_exception + 'a" where
  "index xs i = (if i < length xs then Inr (xs ! i) else Inl IndexError)"

text \<open>A JSON document; objects keep the insertion order of the Python dictionary.\<close>

datatype json = JNum real | JStr string | JArr "json list" | JObj "(string \<times> json) list"

fun json_get :: "json \<Rightarrow> string \<Rightarrow> json option" where
  "json_get (JObj kvs) k = map_of kvs k"
| "json_get (JNum _) k = None"
| "json_get (JStr _) k = None"
| "json_get (JArr _) k = None"

text \<open>A file on disk is a written JSON bundle, a partly written file, or bytes; the disk
  maps paths to files.\<close>

datatype file_content = JsonFile json | PartialFile | Binary string

type_synonym fs = "string \<Rightarrow> file_content option"

text \<open>Sequencing of steps that may raise.\<close>

definition try_bind :: "py_exception + 'a \<Rightarrow> ('a \<Rightarrow> py_exception + 'b) \<Rightarrow> py_exception + 'b" where
  "try_bind r f = (case r of Inl e \<Rightarrow> Inl e | Inr v \<Rightarrow> f v)"

text \<open>The lines the scripts print: one constructor per \<^verbatim>\<open>print\<close> statement that matters
  here, with the values it shows.\<close>

datatype console =
  Loading string
  | ErrorExpectedLogisticRegression
  | WarningNumberOfWeights nat nat
  | SuccessfullyExported string
  | ErrorExporting py_exception
  | ProcessedSubject int bool
  | ErrorProcessingSubject int py_exception
  | ClassDistribution int nat
  | ProcessedFile string real
  | ErrorLoading string py_exception
  | BackedUp string
  | Downloaded string
  | FailedToDownload string py_exception

subsection \<open>\<^verbatim>\<open>load_bidmc_data\<close>\<close>

text \<open>
  \<^verbatim>\<open>is_abnormal\<close> of \<^verbatim>\<open>load_bidmc_data\<close> is a disjunction of four tests on the subject's
  breathing rate and its two variability metrics.
\<close>

definition is_abnormal :: "npfloat \<Rightarrow> npfloat \<Rightarrow> npfloat \<Rightarrow> bool" where
  "is_abnormal breathing_rate amplitude_variability duration_variability =
     (np_lt breathing_rate 10 \<or> np_gt breathing_rate 24 \<or>
      np_gt amplitude_variability 0.4 \<or> np_gt duration_variability 0.4)"

definition abnormal_label :: "npfloat \<Rightarrow> npfloat \<Rightarrow> npfloat \<Rightarrow> int" where
  "abnormal_label breathing_rate amplitude_variability duration_variability =
     (if is_abnormal breathing_rate amplitude_variability duration_variability then 1 else 0)"

text \<open>
  A cell of the breath annotations: iterating the column gives a Python \<^verbatim>\<open>int\<close>, or a
  value (a float, NaN, a string) that fails \<^verbatim>\<open>isinstance(x, (int, np.integer))\<close>.
\<close>

datatype cell = IntCell int | NotInt

text \<open>\<^verbatim>\<open>xs[start:end]\<close>: negative bounds count from the end, bounds are clamped.\<close>

definition py_slice :: "'a list \<Rightarrow> int \<Rightarrow> int \<Rightarrow> 'a list" where
  "py_slice xs start stop =
     (let n = int (length xs);
          lo = (if start < 0 then max (start + n) 0 else min start n);
          hi = (if stop < 0 then max (stop + n) 0 else min stop n)
      in take (nat (hi - lo)) (drop (nat lo) xs))"

definition diff :: "real list \<Rightarrow> real list" where
  "diff xs = map (\<lambda>(a, b). b - a) (zip xs (tl xs))"

text \<open>
  One pass of the loop over the annotated breaths; the three lists are
  \<^verbatim>\<open>breath_durations\<close>, \<^verbatim>\<open>breath_amplitudes\<close> and \<^verbatim>\<open>breath_velocities\<close>. The sampling rate
  is 125 Hz.
\<close>

type_synonym breath_lists = "real list \<times> real list \<times> real list"

fun breath_step :: "real list \<Rightarrow> breath_lists \<Rightarrow> cell \<times> cell \<Rightarrow> breath_lists" where
  "breath_step resp_signal (breath_durations, breath_amplitudes, breath_velocities)
     (IntCell start, IntCell stop) =
     (if start < stop then
        (let breath_segment = py_slice resp_signal start stop in
         if length breath_segment > 0 then
           (breath_durations @ [real_of_int (stop - start) / 125],
            breath_amplitudes @ [Max (set breath_segment) - Min (set breath_segment)],
            if length breath_segment > 1
            then breath_velocities @ [Max (set (map abs (diff breath_segment)))]
            else breath_velocities)
         else (breath_durations, breath_amplitudes, breath_velocities))
      else (breath_durations, breath_amplitudes, breath_velocities))"
| "breath_step resp_signal metrics (IntCell start, NotInt) = metrics"
| "breath_step resp_signal metrics (NotInt, stop) = metrics"

definition breath_metrics :: "real list \<Rightarrow> (cell \<times> cell) list \<Rightarrow> breath_lists" where
  "breath_metrics resp_signal breaths = foldl (breath_step resp_signal) ([], [], []) breaths"

text \<open>
  The two variability metrics. The \<^verbatim>\<open>else 0\<close> of the source is the number 0.
\<close>

definition amplitude_variability :: "real list \<Rightarrow> npfloat" where
  "amplitude_variability breath_amplitudes =
     (let avg_amplitude = np_mean breath_amplitudes in
      if np_gt avg_amplitude 0 then np_divide (np_std breath_amplitudes) avg_amplitude
      else Num 0)"

definition duration_variability :: "real list \<Rightarrow> npfloat" where
  "duration_variability breath_durations =
     (if np_gt (np_mean breath_durations) 0
      then np_divide (np_std breath_durations) (np_mean breath_durations)
      else Num 0)"

text \<open>
  The dictionary \<^verbatim>\<open>subject_data\<close>, built only when the three lists are non-empty
  (\<^const>\<open>None\<close> otherwise: nothing is appended for the subject).
\<close>

definition subject_data ::
  "int \<Rightarrow> int \<Rightarrow> string \<Rightarrow> breath_lists \<Rightarrow> (string \<times> pyval) list option" where
  "subject_data subject_id age gender metrics =
     (case metrics of (breath_durations, breath_amplitudes, breath_velocities) \<Rightarrow>
      if breath_durations \<noteq> [] \<and> breath_amplitudes \<noteq> [] \<and> breath_velocities \<noteq> [] then
        (let breathing_rate = np_divide (Num 60) (np_mean breath_durations);
             avg_amplitude = np_mean breath_amplitudes;
             max_amplitude = Max (set breath_amplitudes);
             min_amplitude = Min (set breath_amplitudes);
             avg_velocity = np_mean breath_velocities;
             amplitude_var = amplitude_variability breath_amplitudes;
             duration_var = duration_variability breath_durations
         in Some
           [(''subject_id'', PInt subject_id),
            (''age'', PInt age),
            (''gender'', PInt (if gender = ''M'' then 1 else 0)),
            (''breathing_rate'', PFloat breathing_rate),
            (''avg_amplitude'', PFloat avg_amplitude),
            (''max_amplitude'', PFloat (Num max_amplitude)),
            (''min_amplitude'', PFloat (Num min_amplitude)),
            (''avg_velocity'', PFloat avg_velocity),
            (''amplitude_variability'', PFloat amplitude_var),
            (''duration_variability'', PFloat duration_var),
            (''abnormal'', PInt (abnormal_label breathing_rate amplitude_var duration_var))])
      else None)"

text \<open>
  The files of one subject, read in the order of the source; each read may raise.
  The \<^verbatim>\<open>RESP\<close> column is a column of floats, as in the data set (a column of integers
  only would be computed with 64-bit integers, which this model does not cover).
  \<^verbatim>\<open>py_int\<close> is Python's \<^verbatim>\<open>int\<close> on strings (\<^const>\<open>None\<close> for \<^verbatim>\<open>ValueError\<close>).
\<close>

record bidmc_world =
  read_info :: "int \<Rightarrow> py_exception + string list"
  read_signals :: "int \<Rightarrow> py_exception + real list"
  read_numerics :: "int \<Rightarrow> py_exception + real list"
  read_breaths :: "int \<Rightarrow> py_exception + (cell \<times> cell) list"
  py_int :: "string \<Rightarrow> int option"

text \<open>\<^verbatim>\<open>info[i].split(': ')[1].strip()\<close>\<close>

definition info_field :: "string list \<Rightarrow> nat \<Rightarrow> py_exception + string" where
  "info_field info i =
     try_bind (index info i) (\<lambda>line.
     try_bind (index (py_split line '': '') 1) (\<lambda>t. Inr (strip t)))"

definition parse_age :: "(string \<Rightarrow> int option) \<Rightarrow> string \<Rightarrow> int" where
  "parse_age int_of age_line =
     (case int_of age_line of
        Some age \<Rightarrow> age
      | None \<Rightarrow> if py_in ''90+'' age_line then 90 else 50)"

text \<open>The body of the \<^verbatim>\<open>try\<close> for one subject.\<close>

definition process_subject ::
  "bidmc_world \<Rightarrow> int \<Rightarrow> py_exception + (string \<times> pyval) list option" where
  "process_subject world subject_id =
     try_bind (read_info world subject_id) (\<lambda>info.
     try_bind (info_field info 5) (\<lambda>age_line.
     let age = parse_age (py_int world) age_line in
     try_bind (info_field info 6) (\<lambda>gender.
     try_bind (info_field info 7) (\<lambda>location.
     try_bind (read_signals world subject_id) (\<lambda>resp_signal.
     try_bind (read_numerics world subject_id) (\<lambda>numerics.
     try_bind (read_breaths world subject_id) (\<lambda>breaths.
     Inr (subject_data subject_id age gender (breath_metrics resp_signal breaths)))))))))"

definition abnormal_of :: "(string \<times> pyval) list \<Rightarrow> int" where
  "abnormal_of s = (case map_of s ''abnormal'' of Some (PInt n) \<Rightarrow> n | _ \<Rightarrow> 0)"

text \<open>The loop over the subjects: an exception is printed and the loop goes on.\<close>

fun bidmc_loop ::
  "bidmc_world \<Rightarrow> int list \<Rightarrow> (string \<times> pyval) list list \<times> console list
     \<Rightarrow> (string \<times> pyval) list list \<times> console list" where
  "bidmc_loop world [] state = state"
| "bidmc_loop world (subject_id # rest) (all_subjects, out) =
     (case process_subject world subject_id of
        Inl e \<Rightarrow>
          bidmc_loop world rest (all_subjects, out @ [ErrorProcessingSubject subject_id e])
      | Inr None \<Rightarrow> bidmc_loop world rest (all_subjects, out)
      | Inr (Some data) \<Rightarrow>
          bidmc_loop world rest
            (all_subjects @ [data],
             out @ [ProcessedSubject subject_id (abnormal_of data = 1)]))"

definition load_bidmc_data ::
  "bidmc_world \<Rightarrow> (string \<times> pyval) list list \<times> console list" where
  "load_bidmc_data world =
     (case bidmc_loop world [1..53] ([], []) of
        (all_subjects, out) \<Rightarrow>
          (all_subjects,
           out @ (if all_subjects \<noteq> []
                  then [ClassDistribution (sum_list (map abnormal_of all_subjects))
                          (length all_subjects)]
                  else [])))"

subsection \<open>\<^verbatim>\<open>load_qr_respiratory_data\<close>\<close>

text \<open>
  A row of the data frame read from an exported log (the four columns the function uses):
  the three numeric cells are numbers (floats), the phase cell is a string or missing
  (\<^const>\<open>None\<close>; pandas reads an empty field as NaN). The outside world of the function is
  the text of a file, \<^verbatim>\<open>pd.read_csv\<close> on a file with \<^verbatim>\<open>skiprows\<close> (a missing column is
  counted as a failure of the read), Python's \<^verbatim>\<open>int\<close> and \<^verbatim>\<open>float\<close> on strings
  (\<^const>\<open>None\<close> for \<^verbatim>\<open>ValueError\<close>), and what \<^verbatim>\<open>np.mean\<close> does on the empty column of a
  data frame without rows (NaN with a warning, or an exception, depending on the version
  of numpy).
\<close>

record qr_row =
  timestamp :: real
  amplitude :: real
  velocity :: real
  breathing_phase :: "string option"

record qr_world =
  read_text :: "string \<Rightarrow> py_exception + string"
  read_csv :: "string \<Rightarrow> nat \<Rightarrow> py_exception + qr_row list"
  qr_int :: "string \<Rightarrow> int option"
  qr_float :: "string \<Rightarrow> real option"
  empty_column_mean :: "py_exception + npfloat"

text \<open>
  \<^verbatim>\<open>np.std\<close> and \<^verbatim>\<open>np.mean\<close> on a column of the data frame. The columns of a data frame
  without rows have the dtype \<^verbatim>\<open>object\<close>, and \<^verbatim>\<open>np.std\<close> of such an empty column divides
  by the number of items with Python's division: it raises \<^verbatim>\<open>ZeroDivisionError\<close>.
\<close>

definition column_std :: "real list \<Rightarrow> py_exception + npfloat" where
  "column_std xs = (if xs = [] then Inl ZeroDivisionError else Inr (Num (std xs)))"

definition column_mean :: "qr_world \<Rightarrow> real list \<Rightarrow> py_exception + npfloat" where
  "column_mean world xs = (if xs = [] then empty_column_mean world else Inr (Num (mean xs)))"

text \<open>The variables set from the header lines, all \<^verbatim>\<open>None\<close> at the start of each file.\<close>

record header =
  h_patient_id :: "string option"
  h_age :: "int option"
  h_gender :: "string option"
  h_health_status :: "string option"
  h_total_duration :: "real option"
  h_breathing_rate :: "real option"
  h_avg_amplitude :: "real option"
  h_max_amplitude :: "real option"
  h_min_amplitude :: "real option"
  h_total_breaths :: "int option"

definition empty_header :: header where
  "empty_header =
     \<lparr>h_patient_id = None, h_age = None, h_gender = None, h_health_status = None,
      h_total_duration = None, h_breathing_rate = None, h_avg_amplitude = None,
      h_max_amplitude = None, h_min_amplitude = None, h_total_breaths = None\<rparr>"

definition text_after :: "string \<Rightarrow> string \<Rightarrow> py_exception + string" where
  "text_after line key = index (py_split line key) 1"

definition text_between :: "string \<Rightarrow> string \<Rightarrow> string \<Rightarrow> py_exception + string" where
  "text_between line key unit =
     try_bind (text_after line key) (\<lambda>t. index (py_split t unit) 0)"

definition as_int :: "qr_world \<Rightarrow> string \<Rightarrow> py_exception + int" where
  "as_int world s = (case qr_int world s of None \<Rightarrow> Inl ValueError | Some v \<Rightarrow> Inr v)"

definition as_float :: "qr_world \<Rightarrow> string \<Rightarrow> py_exception + real" where
  "as_float world s = (case qr_float world s of None \<Rightarrow> Inl ValueError | Some v \<Rightarrow> Inr v)"

text \<open>The \<^verbatim>\<open>if\<close>/\<^verbatim>\<open>elif\<close> chain applied to one line.\<close>

definition parse_line :: "qr_world \<Rightarrow> header \<Rightarrow> string \<Rightarrow> py_exception + header" where
  "parse_line world h line =
     (if py_in ''ID:'' line then
        try_bind (text_after line ''ID:'') (\<lambda>t.
        Inr (h\<lparr>h_patient_id := Some (strip t)\<rparr>))
      else if py_in ''Age:'' line then
        try_bind (text_after line ''Age:'') (\<lambda>t.
        try_bind (as_int world (strip t)) (\<lambda>v. Inr (h\<lparr>h_age := Some v\<rparr>)))
      else if py_in ''Gender:'' line then
        try_bind (text_after line ''Gender:'') (\<lambda>t.
        Inr (h\<lparr>h_gender := Some (strip t)\<rparr>))
      else if py_in ''Health Status:'' line then
        try_bind (text_after line ''Health Status:'') (\<lambda>t.
        Inr (h\<lparr>h_health_status := Some (strip t)\<rparr>))
      else if py_in ''Total Duration:'' line then
        try_bind (text_between line ''Total Duration:'' ''seconds'') (\<lambda>t.
        try_bind (as_float world (strip t)) (\<lambda>v. Inr (h\<lparr>h_total_duration := Some v\<rparr>)))
      else if py_in ''Breathing Rate:'' line then
        try_bind (text_between line ''Breathing Rate:'' ''breaths/minute'') (\<lambda>t.
        try_bind (as_float world (strip t)) (\<lambda>v. Inr (h\<lparr>h_breathing_rate := Some v\<rparr>)))
      else if py_in ''Average Amplitude:'' line then
        try_bind (text_after line ''Average Amplitude:'') (\<lambda>t.
        try_bind (as_float world (strip t)) (\<lambda>v. Inr (h\<lparr>h_avg_amplitude := Some v\<rparr>)))
      else if py_in ''Maximum Amplitude:'' line then
        try_bind (text_after line ''Maximum Amplitude:'') (\<lambda>t.
        try_bind (as_float world (strip t)) (\<lambda>v. Inr (h\<lparr>h_max_amplitude := Some v\<rparr>)))
      else if py_in ''Minimum Amplitude:'' line then
        try_bind (text_after line ''Minimum Amplitude:'') (\<lambda>t.
        try_bind (as_float world (strip t)) (\<lambda>v. Inr (h\<lparr>h_min_amplitude := Some v\<rparr>)))
      else if py_in ''Total Breaths:'' line then
        try_bind (text_after line ''Total Breaths:'') (\<lambda>t.
        try_bind (as_int world (strip t)) (\<lambda>v. Inr (h\<lparr>h_total_breaths := Some v\<rparr>)))
      else Inr h)"

text \<open>
  \<^verbatim>\<open>for i, line in enumerate(lines)\<close>: the chain, then the test for the line holding
  \<^verbatim>\<open>timestamp\<close>, which sets \<^verbatim>\<open>header_index\<close> and leaves the loop. \<^verbatim>\<open>header_index\<close> is a
  local variable of the function that no statement resets: it keeps the value a previous
  file gave it (\<^const>\<open>None\<close>: never assigned).
\<close>

fun header_loop ::
  "qr_world \<Rightarrow> nat \<Rightarrow> string list \<Rightarrow> header \<times> nat option
     \<Rightarrow> py_exception + header \<times> nat option" where
  "header_loop world i [] (h, header_index) = Inr (h, header_index)"
| "header_loop world i (line # rest) (h, header_index) =
     (case parse_line world h line of
        Inl e \<Rightarrow> Inl e
      | Inr h' \<Rightarrow>
          if py_in ''timestamp'' line then Inr (h', Some i)
          else header_loop world (Suc i) rest (h', header_index))"

text \<open>
  \<^verbatim>\<open>df.groupby((df['breathing_phase'] != df['breathing_phase'].shift()).cumsum())\<close>: a
  row starts a new group when its phase differs from the phase of the row before it; a
  missing phase differs from every phase, also from a missing one. The groups are the
  maximal runs of consecutive rows with the same phase, in order, and a row without phase
  is a group of its own.
\<close>

definition same_phase :: "qr_row \<Rightarrow> qr_row \<Rightarrow> bool" where
  "same_phase r r' =
     (case breathing_phase r of
        None \<Rightarrow> False
      | Some p \<Rightarrow> breathing_phase r' = Some p)"

fun phase_groups :: "qr_row list \<Rightarrow> qr_row list list" where
  "phase_groups [] = []"
| "phase_groups (r # rs) =
     (case phase_groups rs of
        [] \<Rightarrow> [[r]]
      | g # gs \<Rightarrow>
          if same_phase r (hd g) then (r # g) # gs
          else [r] # g # gs)"

definition phase_durations :: "qr_row list \<Rightarrow> real list" where
  "phase_durations df =
     map (\<lambda>g. timestamp (last g) - timestamp (hd g))
       (filter (\<lambda>g. length g > 1) (phase_groups df))"

text \<open>
  The two variability metrics of a log. \<^verbatim>\<open>None > 0\<close> raises \<^verbatim>\<open>TypeError\<close>; when the
  average is positive, \<^verbatim>\<open>np.std(amplitudes)\<close> is computed first and then divided. The
  durations are a Python list.
\<close>

definition qr_amplitude_variability ::
  "real list \<Rightarrow> real option \<Rightarrow> py_exception + npfloat" where
  "qr_amplitude_variability amplitudes avg_amplitude =
     (case avg_amplitude of
        None \<Rightarrow> Inl TypeError
      | Some avg \<Rightarrow>
          if avg > 0
          then try_bind (column_std amplitudes) (\<lambda>sd. Inr (np_divide sd (Num avg)))
          else Inr (Num 0))"

definition qr_duration_variability :: "real list \<Rightarrow> npfloat" where
  "qr_duration_variability durations =
     (if durations \<noteq> [] \<and> np_gt (np_mean durations) 0
      then np_divide (np_std durations) (np_mean durations)
      else Num 0)"

definition basename :: "string \<Rightarrow> string" where
  "basename p = rev (takeWhile (\<lambda>c. c \<noteq> CHR ''/'') (rev p))"

text \<open>
  The dictionary \<^verbatim>\<open>summary_data\<close>; \<^verbatim>\<open>x if x else default\<close> replaces \<^verbatim>\<open>None\<close>, zero and
  the empty string by the default.
\<close>

definition summary_data ::
  "header \<Rightarrow> string \<Rightarrow> npfloat \<Rightarrow> npfloat \<Rightarrow> npfloat \<Rightarrow> (string \<times> pyval) list" where
  "summary_data h file_path avg_velocity amplitude_var duration_var =
     [(''patient_id'',
         PStr (case h_patient_id h of None \<Rightarrow> ''0'' | Some v \<Rightarrow> if v = [] then ''0'' else v)),
      (''age'', PInt (case h_age h of None \<Rightarrow> 0 | Some v \<Rightarrow> v)),
      (''gender'', PInt (if h_gender h = Some ''Male'' then 1 else 0)),
      (''health_status'',
         PStr (case h_health_status h of None \<Rightarrow> ''Unknown''
               | Some v \<Rightarrow> if v = [] then ''Unknown'' else v)),
      (''breathing_rate'', PFloat (Num (case h_breathing_rate h of None \<Rightarrow> 0 | Some v \<Rightarrow> v))),
      (''avg_amplitude'', PFloat (Num (case h_avg_amplitude h of None \<Rightarrow> 0 | Some v \<Rightarrow> v))),
      (''max_amplitude'', PFloat (Num (case h_max_amplitude h of None \<Rightarrow> 0 | Some v \<Rightarrow> v))),
      (''min_amplitude'', PFloat (Num (case h_min_amplitude h of None \<Rightarrow> 0 | Some v \<Rightarrow> v))),
      (''avg_velocity'', PFloat avg_velocity),
      (''amplitude_variability'', PFloat amplitude_var),
      (''duration_variability'', PFloat duration_var),
      (''file_path'', PStr (basename file_path))]"

text \<open>
  The aggregate of one log from its header and its rows, up to \<^verbatim>\<open>summary_data\<close>.
\<close>

definition session_summary ::
  "qr_world \<Rightarrow> header \<Rightarrow> string \<Rightarrow> qr_row list
     \<Rightarrow> py_exception + (string \<times> pyval) list" where
  "session_summary world h file_path df =
     (let amplitudes = map amplitude df;
          velocities = map (\<lambda>r. \<bar>velocity r\<bar>) df
      in try_bind (qr_amplitude_variability amplitudes (h_avg_amplitude h)) (\<lambda>amplitude_var.
         let duration_var = qr_duration_variability (phase_durations df) in
         try_bind (column_mean world velocities) (\<lambda>avg_velocity.
         Inr (summary_data h file_path avg_velocity amplitude_var duration_var))))"

text \<open>
  The body of the loop for one file, on the state of the function: \<^verbatim>\<open>all_data\<close>,
  \<^verbatim>\<open>header_index\<close> and the console. The last statement of the \<^verbatim>\<open>try\<close>, after
  \<^verbatim>\<open>all_data.append(summary_data)\<close>, prints \<^verbatim>\<open>breathing_rate\<close> with the format \<^verbatim>\<open>.2f\<close>,
  which raises \<^verbatim>\<open>TypeError\<close> when \<^verbatim>\<open>breathing_rate\<close> is \<^verbatim>\<open>None\<close>.
\<close>

type_synonym qr_state = "(string \<times> pyval) list list \<times> nat option \<times> console list"

definition process_file :: "qr_world \<Rightarrow> qr_state \<Rightarrow> string \<Rightarrow> qr_state" where
  "process_file world state file_path =
     (case state of (all_data, header_index, out) \<Rightarrow>
      case read_text world file_path of
        Inl e \<Rightarrow> (all_data, header_index, out @ [ErrorLoading file_path e])
      | Inr content \<Rightarrow>
          (case header_loop world 0 (py_split content [CHR 0x0A])
                  (empty_header, header_index) of
             Inl e \<Rightarrow> (all_data, header_index, out @ [ErrorLoading file_path e])
           | Inr (h, header_index') \<Rightarrow>
               (case header_index' of
                  None \<Rightarrow>
                    (all_data, header_index',
                     out @ [ErrorLoading file_path UnboundLocalError])
                | Some skiprows \<Rightarrow>
                    (case try_bind (read_csv world file_path skiprows)
                            (session_summary world h file_path) of
                       Inl e \<Rightarrow> (all_data, header_index', out @ [ErrorLoading file_path e])
                     | Inr summary \<Rightarrow>
                         (case h_breathing_rate h of
                            None \<Rightarrow>
                              (all_data @ [summary], header_index',
                               out @ [ErrorLoading file_path TypeError])
                          | Some rate \<Rightarrow>
                              (all_data @ [summary], header_index',
                               out @ [ProcessedFile file_path rate]))))))"

text \<open>
  \<^verbatim>\<open>load_qr_respiratory_data\<close> on the list of files that \<^verbatim>\<open>glob\<close> returned: the data frame
  of the collected dictionaries, or \<^verbatim>\<open>ValueError\<close> when there is none.
\<close>

definition load_qr_respiratory_data ::
  "qr_world \<Rightarrow> string list
     \<Rightarrow> (py_exception + (string \<times> pyval) list list) \<times> console list" where
  "load_qr_respiratory_data world files =
     (case foldl (process_file world) ([], None, []) files of
        (all_data, header_index, out) \<Rightarrow>
          (if all_data \<noteq> [] then Inr all_data else Inl ValueError, out))"

subsection \<open>\<^verbatim>\<open>download_coco_model.py\<close>\<close>

text \<open>
  What \<^verbatim>\<open>download_file\<close> meets for a URL: the request (or opening the file) raises before
  anything is written; or all chunks arrive; or an exception interrupts the transfer after
  some chunks were written.
\<close>

datatype fetch_outcome =
  FailsBeforeWrite py_exception
  | Received "string list"
  | Interrupted "string list" py_exception

definition download_file ::
  "(string \<Rightarrow> fetch_outcome) \<Rightarrow> fs \<Rightarrow> string \<Rightarrow> string \<Rightarrow> (py_exception + unit) \<times> fs" where
  "download_file fetch disk url filename =
     (case fetch url of
        FailsBeforeWrite e \<Rightarrow> (Inl e, disk)
      | Received chunks \<Rightarrow> (Inr (), disk(filename \<mapsto> Binary (concat chunks)))
      | Interrupted chunks e \<Rightarrow> (Inl e, disk(filename \<mapsto> Binary (concat chunks))))"

definition models :: "(string \<times> string) list" where
  "models =
     [(''https://github.com/ultralytics/yolov5/releases/download/v7.0/yolov5s.tflite'',
       ''app/src/main/assets/yolov5s_coco.tflite''),
      (''https://github.com/ultralytics/yolov5/releases/download/v7.0/yolov5n.tflite'',
       ''app/src/main/assets/yolov5n_coco.tflite'')]"

text \<open>The loop \<^verbatim>\<open>for model in models\<close> with its \<^verbatim>\<open>try\<close>/\<^verbatim>\<open>except\<close>/\<^verbatim>\<open>continue\<close>.\<close>

fun download_loop ::
  "(string \<Rightarrow> fetch_outcome) \<Rightarrow> (string \<times> string) list \<Rightarrow> fs \<times> console list
     \<Rightarrow> fs \<times> console list" where
  "download_loop fetch [] state = state"
| "download_loop fetch ((url, filename) # rest) (disk, out) =
     (case download_file fetch disk url filename of
        (Inl e, disk') \<Rightarrow> download_loop fetch rest (disk', out @ [FailedToDownload filename e])
      | (Inr _, disk') \<Rightarrow> download_loop fetch rest (disk', out @ [Downloaded filename]))"

text \<open>
  \<^verbatim>\<open>main\<close>: the existing QR model is renamed to a backup when there is no backup yet,
  then the models are downloaded. (Creating the asset directory and the final listing of
  the directory are not modelled.)
\<close>

definition download_main :: "(string \<Rightarrow> fetch_outcome) \<Rightarrow> fs \<Rightarrow> fs \<times> console list" where
  "download_main fetch disk =
     (let qr_model = ''app/src/main/assets/qr_yolov5_tiny.tflite'';
          backup_path = ''app/src/main/assets/qr_yolov5_tiny.tflite.backup'';
          backed_up = (disk qr_model \<noteq> None \<and> disk backup_path = None);
          disk1 = (if backed_up then (disk(backup_path := disk qr_model))(qr_model := None)
                   else disk)
      in download_loop fetch models
           (disk1, if backed_up then [BackedUp backup_path] else []))"

subsection \<open>\<^verbatim>\<open>export_model_weights.py\<close>\<close>

text \<open>
  What \<^verbatim>\<open>joblib.load\<close> can return: a logistic regression, fitted (with its \<^verbatim>\<open>coef_\<close>
  matrix, one row per class, and its \<^verbatim>\<open>intercept_\<close> vector) or not (the attributes are
  absent), or an object of another class.
\<close>

record fitted =
  coef :: "real list list"
  intercept :: "real list"

datatype pyobj = LogisticRegression "fitted option" | OtherObject

text \<open>
  The outcome of \<^verbatim>\<open>with open(output_path, 'w') as f: json.dump(output, f, indent=2)\<close>:
  the \<^verbatim>\<open>open\<close> raises, or \<^verbatim>\<open>json.dump\<close> raises after the file was opened (and truncated),
  or the whole bundle is written.
\<close>

datatype write_outcome = WriteOk | OpenFails | DumpFails

text \<open>The outside world of the export script: the model loader and the disk.\<close>

record env =
  joblib_load :: "string \<Rightarrow> py_exception + pyobj"
  file_write :: "string \<Rightarrow> write_outcome"
  makedirs_ok :: "string \<Rightarrow> bool"

text \<open>\<^verbatim>\<open>d[k] = v\<close> and \<^verbatim>\<open>dict(pairs)\<close> on insertion-ordered dictionaries.\<close>

fun dict_set :: "('k \<times> 'v) list \<Rightarrow> 'k \<Rightarrow> 'v \<Rightarrow> ('k \<times> 'v) list" where
  "dict_set [] k v = [(k, v)]"
| "dict_set ((k', v') # d) k v =
     (if k' = k then (k, v) # d else (k', v') # dict_set d k v)"

definition py_dict :: "('k \<times> 'v) list \<Rightarrow> ('k \<times> 'v) list" where
  "py_dict pairs = foldl (\<lambda>d (k, v). dict_set d k v) [] pairs"

definition feature_names :: "string list" where
  "feature_names =
     [''breathing_rate'', ''irregularity_index'', ''amplitude_variation'', ''avg_velocity'']"

text \<open>The defaults used when \<^verbatim>\<open>thresholds is None\<close>.\<close>

definition default_thresholds :: "(string \<times> real) list" where
  "default_thresholds =
     [(''BRADYPNEA_THRESHOLD'', 10.0),
      (''TACHYPNEA_THRESHOLD'', 24.0),
      (''IRREGULARITY_THRESHOLD'', 0.4),
      (''AMPLITUDE_VARIATION_THRESHOLD'', 40.0),
      (''VELOCITY_THRESHOLD'', 8.0)]"

text \<open>
  ``Extract model parameters'': row 0 and intercept 0 for a binary model
  (\<^verbatim>\<open>coef_.shape[0] == 1\<close>), row 1 and intercept 1 otherwise; an index out of range raises
  \<^verbatim>\<open>IndexError\<close>, a missing attribute \<^verbatim>\<open>AttributeError\<close>.
\<close>

definition extract_parameters :: "fitted option \<Rightarrow> py_exception + (real list \<times> real)" where
  "extract_parameters model =
     (case model of
        None \<Rightarrow> Inl AttributeError
      | Some m \<Rightarrow>
          (let row = (if length (coef m) = 1 then 0 else 1) in
           case index (coef m) row of
             Inl e \<Rightarrow> Inl e
           | Inr feature_weights \<Rightarrow>
               (case index (intercept m) row of
                  Inl e \<Rightarrow> Inl e
                | Inr bias \<Rightarrow> Inr (feature_weights, bias))))"

definition weights_dict :: "real list \<Rightarrow> real \<Rightarrow> (string \<times> real) list" where
  "weights_dict feature_weights bias =
     dict_set (py_dict (zip feature_names feature_weights)) ''bias'' bias"

definition num_object :: "(string \<times> real) list \<Rightarrow> json" where
  "num_object d = JObj (map (\<lambda>(k, v). (k, JNum v)) d)"

definition output_bundle :: "(string \<times> real) list \<Rightarrow> (string \<times> real) list \<Rightarrow> json" where
  "output_bundle weights thresholds =
     JObj [(''model_type'', JStr ''logistic_regression''),
           (''weights'', num_object weights),
           (''thresholds'', num_object thresholds),
           (''feature_names'', JArr (map JStr feature_names))]"

text \<open>
  \<^verbatim>\<open>export_model_weights(model_path, output_path, thresholds=None)\<close>: the returned flag, the
  disk afterwards and the console. Every exception inside the \<^verbatim>\<open>try\<close> ends in the
  \<^verbatim>\<open>except Exception\<close> branch, which prints and returns \<^verbatim>\<open>False\<close>.
\<close>

definition export_model_weights ::
  "env \<Rightarrow> fs \<Rightarrow> string \<Rightarrow> string \<Rightarrow> (string \<times> real) list option
     \<Rightarrow> bool \<times> fs \<times> console list" where
  "export_model_weights world disk model_path output_path thresholds =
     (case joblib_load world model_path of
        Inl e \<Rightarrow> (False, disk, [Loading model_path, ErrorExporting e])
      | Inr OtherObject \<Rightarrow>
          (False, disk, [Loading model_path, ErrorExpectedLogisticRegression])
      | Inr (LogisticRegression model) \<Rightarrow>
          (case extract_parameters model of
             Inl e \<Rightarrow> (False, disk, [Loading model_path, ErrorExporting e])
           | Inr (feature_weights, bias) \<Rightarrow>
               (let warning =
                      (if length feature_weights \<noteq> length feature_names
                       then [WarningNumberOfWeights (length feature_weights)
                               (length feature_names)]
                       else []);
                    weights = weights_dict feature_weights bias;
                    thresholds' =
                      (case thresholds of None \<Rightarrow> default_thresholds | Some t \<Rightarrow> t);
                    output = output_bundle weights thresholds'
                in case file_write world output_path of
                     OpenFails \<Rightarrow>
                       (False, disk, Loading model_path # warning @ [ErrorExporting IOError])
                   | DumpFails \<Rightarrow>
                       (False, disk(output_path \<mapsto> PartialFile),
                        Loading model_path # warning @ [ErrorExporting IOError])
                   | WriteOk \<Rightarrow>
                       (True, disk(output_path \<mapsto> JsonFile output),
                        Loading model_path # warning @ [SuccessfullyExported output_path]))))"

text \<open>
  The script's entry point: paths from \<^verbatim>\<open>sys.argv\<close> or the defaults, the output directory
  created (outside any \<^verbatim>\<open>try\<close>: a failure there ends the script, \<^const>\<open>None\<close>), and the
  thresholds passed explicitly.
\<close>

definition default_model_path :: string where
  "default_model_path = ''../model/respiratory_classifier.joblib''"

definition default_output_path :: string where
  "default_output_path = ''../app/src/main/assets/python_model_weights.json''"

definition main_thresholds :: "(string \<times> real) list" where
  "main_thresholds =
     [(''BRADYPNEA_THRESHOLD'', 10.0),
      (''TACHYPNEA_THRESHOLD'', 24.0),
      (''IRREGULARITY_THRESHOLD'', 0.4),
      (''AMPLITUDE_VARIATION_THRESHOLD'', 40.0),
      (''VELOCITY_THRESHOLD'', 8.0)]"

definition argv_model_path :: "string list \<Rightarrow> string" where
  "argv_model_path argv = (if length argv > 1 then argv ! 1 else default_model_path)"

definition argv_output_path :: "string list \<Rightarrow> string" where
  "argv_output_path argv = (if length argv > 2 then argv ! 2 else default_output_path)"

definition export_main ::
  "env \<Rightarrow> fs \<Rightarrow> string list \<Rightarrow> (bool \<times> fs \<times> console list) option" where
  "export_main world disk argv =
     (let model_path = argv_model_path argv;
          output_path = argv_output_path argv
      in if makedirs_ok world output_path
         then Some (export_model_weights world disk model_path output_path
                      (Some main_thresholds))
         else None)"

text \<open>Reading a key of the bundle stored at a path, and whether the export gets as far as
  opening the output file (the model loads, is a logistic regression, and its parameters
  are extracted).\<close>

definition bundle_field :: "fs \<Rightarrow> string \<Rightarrow> string \<Rightarrow> json option" where
  "bundle_field disk path key =
     (case disk path of Some (JsonFile bundle) \<Rightarrow> json_get bundle key | _ \<Rightarrow> None)"

definition reaches_write :: "env \<Rightarrow> string \<Rightarrow> bool" where
  "reaches_write world model_path =
     (case joblib_load world model_path of
        Inr (LogisticRegression model) \<Rightarrow>
          (case extract_parameters model of Inr _ \<Rightarrow> True | Inl _ \<Rightarrow> False)
      | _ \<Rightarrow> False)"

subsection \<open>The session metrics as the specification words them\<close>

text \<open>
  Amplitude variability as ``the standard deviation of the amplitude samples divided by the
  header's average amplitude'', and duration variability as ``the coefficient of variation
  (standard deviation over mean) of the durations of consecutive same-phase runs'', each
  run lasting from its first to its last time stamp. These two definitions follow the
  specification, not the code.
\<close>

definition spec_amplitude_variability :: "qr_row list \<Rightarrow> real \<Rightarrow> npfloat" where
  "spec_amplitude_variability df avg_amplitude =
     np_divide (Num (std (map amplitude df))) (Num avg_amplitude)"

definition spec_duration_variability :: "qr_row list \<Rightarrow> npfloat" where
  "spec_duration_variability df =
     (let durations = map (\<lambda>g. timestamp (last g) - timestamp (hd g)) (phase_groups df)
      in np_divide (Num (std durations)) (Num (mean durations)))"

subsection \<open>Concrete inputs for the examples\<close>

text \<open>A BIDMC directory that holds subject 1 only, with two annotated breaths.\<close>

definition example_info :: "string list" where
  "example_info =
     [''Comments:'', ''Signals sampling frequency: 125 Hz'',
      ''Numerics sampling frequency: 1 Hz'', ''Ventilation: spontaneous'', ''Study: 1'',
      ''Age: 34'', ''Gender: M'', ''Location: micu'']"

definition bidmc_example :: bidmc_world where
  "bidmc_example =
     \<lparr>read_info = (\<lambda>sid. if sid = 1 then Inr example_info else Inl IOError),
      read_signals = (\<lambda>sid. Inr [0, 1, 3, 2, 1, 1]),
      read_numerics = (\<lambda>sid. Inr [15]),
      read_breaths =
        (\<lambda>sid. Inr [(IntCell 0, IntCell 3), (IntCell 3, IntCell 6), (NotInt, IntCell 2)]),
      py_int = (\<lambda>s. if s = ''34'' then Some 34 else None)\<rparr>"

definition example_record :: "(string \<times> pyval) list" where
  "example_record =
     [(''subject_id'', PInt 1), (''age'', PInt 34), (''gender'', PInt 1),
      (''breathing_rate'', PFloat (Num 2500)), (''avg_amplitude'', PFloat (Num 2)),
      (''max_amplitude'', PFloat (Num 3)), (''min_amplitude'', PFloat (Num 1)),
      (''avg_velocity'', PFloat (Num 1.5)), (''amplitude_variability'', PFloat (Num 0.5)),
      (''duration_variability'', PFloat (Num 0)), (''abnormal'', PInt 1)]"

text \<open>
  An exported log with the given header lines, followed by the line of column names, whose
  data frame is the given list of rows. The first example has four rows, three of one
  phase and then one of another; the second has seven rows in five runs (two rows, three
  single rows, two rows).
\<close>

definition example_rows :: "qr_row list" where
  "example_rows =
     [\<lparr>timestamp = 0, amplitude = 1, velocity = -1, breathing_phase = Some ''inhale''\<rparr>,
      \<lparr>timestamp = 1, amplitude = 3, velocity = 3, breathing_phase = Some ''inhale''\<rparr>,
      \<lparr>timestamp = 2, amplitude = 1, velocity = 1, breathing_phase = Some ''inhale''\<rparr>,
      \<lparr>timestamp = 3, amplitude = 3, velocity = -3, breathing_phase = Some ''exhale''\<rparr>]"

definition example_runs :: "qr_row list" where
  "example_runs =
     [\<lparr>timestamp = 0, amplitude = 7, velocity = -1, breathing_phase = Some ''inhale''\<rparr>,
      \<lparr>timestamp = 1, amplitude = 1, velocity = 1, breathing_phase = Some ''inhale''\<rparr>,
      \<lparr>timestamp = 2, amplitude = 6, velocity = -2, breathing_phase = Some ''exhale''\<rparr>,
      \<lparr>timestamp = 3, amplitude = 2, velocity = 2, breathing_phase = Some ''inhale''\<rparr>,
      \<lparr>timestamp = 4, amplitude = 5, velocity = -3, breathing_phase = Some ''exhale''\<rparr>,
      \<lparr>timestamp = 5, amplitude = 3, velocity = 3, breathing_phase = Some ''inhale''\<rparr>,
      \<lparr>timestamp = 7, amplitude = 4, velocity = 2, breathing_phase = Some ''inhale''\<rparr>]"

definition example_rows_text :: "string list" where
  "example_rows_text = [''0,1,-1,inhale'', ''1,3,3,inhale'', ''2,1,1,inhale'', ''3,3,-3,exhale'']"

definition example_runs_text :: "string list" where
  "example_runs_text =
     [''0,7,-1,inhale'', ''1,1,1,inhale'', ''2,6,-2,exhale'', ''3,2,2,inhale'',
      ''4,5,-3,exhale'', ''5,3,3,inhale'', ''7,4,2,inhale'']"

definition example_log :: "string list \<Rightarrow> string list \<Rightarrow> string" where
  "example_log header_lines data_lines =
     concat (map (\<lambda>l. l @ [CHR 0x0A]) header_lines)
     @ ''timestamp,amplitude,velocity,breathing_phase'' @ [CHR 0x0A]
     @ concat (map (\<lambda>l. l @ [CHR 0x0A]) data_lines)"

definition qr_example_with :: "string list \<Rightarrow> string list \<Rightarrow> qr_row list \<Rightarrow> qr_world" where
  "qr_example_with header_lines data_lines rows =
     \<lparr>read_text = (\<lambda>p. Inr (example_log header_lines data_lines)),
      read_csv = (\<lambda>p skiprows. Inr rows),
      qr_int = (\<lambda>s. if s = ''34'' then Some 34 else None),
      qr_float = (\<lambda>s. if s = ''0'' then Some 0 else if s = ''2'' then Some 2
                       else if s = ''12'' then Some 12 else None),
      empty_column_mean = Inr NaN\<rparr>"

definition qr_example :: "string list \<Rightarrow> qr_world" where
  "qr_example header_lines = qr_example_with header_lines example_rows_text example_rows"

definition example_path :: string where
  "example_path = ''respiratory_data/respiratory_data_1.csv''"

text \<open>Worlds of the export script.\<close>

definition model_of :: "real list \<Rightarrow> real \<Rightarrow> pyobj" where
  "model_of ws b = LogisticRegression (Some \<lparr>coef = [ws], intercept = [b]\<rparr>)"

definition world_with :: "py_exception + pyobj \<Rightarrow> write_outcome \<Rightarrow> env" where
  "world_with loaded w =
     \<lparr>joblib_load = (\<lambda>_. loaded), file_write = (\<lambda>_. w), makedirs_ok = (\<lambda>_. True)\<rparr>"

definition empty_disk :: fs where
  "empty_disk = (\<lambda>_. None)"

section \<open>Theorems\<close>

lemma abnormal_factors_eq_criteria_met:
  "abnormal_factors r i a v = criteria_met r i a v"
  by (simp add: abnormal_factors_def criteria_met_def)

text \<open>
  C1 (as the code has it). In \<^verbatim>\<open>create_sample_model\<close> a sample is labelled abnormal exactly
  when two or more of the four criteria (rate below 10 or above 24, irregularity above 0.4,
  amplitude variation above 40, velocity above 8) hold. In \<^verbatim>\<open>load_bidmc_data\<close> a subject is
  labelled abnormal exactly when at least one of: rate below 10, rate above 24,
  amplitude variability above 0.4, duration variability above 0.4.
\<close>

theorem label_rules:
  "(sample_label r i a v = 1) = (criteria_met r i a v \<ge> 2)
   \<and> (sample_label r i a v = 0) = (criteria_met r i a v \<le> 1)
   \<and> sample_labels X = map (\<lambda>(r, i, a, v). if criteria_met r i a v \<ge> 2 then 1 else 0) X
   \<and> (abnormal_label (Num r) (Num av) (Num dv) = 1)
       = (r < 10 \<or> r > 24 \<or> av > 0.4 \<or> dv > 0.4)
   \<and> (abnormal_label (Num r) (Num av) (Num dv) = 0)
       = (10 \<le> r \<and> r \<le> 24 \<and> av \<le> 0.4 \<and> dv \<le> 0.4)"
  by (auto simp add: sample_label_def sample_labels_def abnormal_factors_eq_criteria_met
      abnormal_label_def is_abnormal_def)

text \<open>
  C1 as stated fails for the BIDMC labels: a subject with breathing rate 5 and both
  variability metrics 0 meets one criterion only (whatever its velocity below 8), and
  \<^verbatim>\<open>load_bidmc_data\<close> labels it abnormal.
\<close>

theorem label_rules_counterexample:
  "criteria_met 5 0 0 0 = 1 \<and> abnormal_label (Num 5) (Num 0) (Num 0) = 1"
  by (simp add: criteria_met_def abnormal_label_def is_abnormal_def)


subsection \<open>The weight bundle of \<^verbatim>\<open>export_model_weights\<close>\<close>

lemma dict_set_fresh: "k \<notin> fst ` set d \<Longrightarrow> dict_set d k v = d @ [(k, v)]"
  by (induction d) auto

lemma foldl_dict_set_distinct:
  "distinct (map fst (acc @ ps)) \<Longrightarrow> foldl (\<lambda>d (k, v). dict_set d k v) acc ps = acc @ ps"
proof (induction ps arbitrary: acc)
  case Nil
  then show ?case by simp
next
  case (Cons p ps)
  obtain k v where p: "p = (k, v)" by (cases p)
  from Cons.prems p have fresh: "k \<notin> fst ` set acc" by auto
  from Cons.prems p have "distinct (map fst ((acc @ [(k, v)]) @ ps))" by simp
  from Cons.IH [OF this] show ?case by (simp add: p dict_set_fresh [OF fresh])
qed

lemma py_dict_distinct: "distinct (map fst ps) \<Longrightarrow> py_dict ps = ps"
  using foldl_dict_set_distinct [of "[]" ps] by (simp add: py_dict_def)

lemma distinct_feature_names: "distinct feature_names"
  by (simp add: feature_names_def)

text \<open>The feature names are distinct and none is \<^verbatim>\<open>bias\<close>, so the weights dictionary is
  the zipped pairs followed by the bias.\<close>

lemma weights_dict_eq: "weights_dict ws b = zip feature_names ws @ [(''bias'', b)]"
proof -
  have d: "distinct (map fst (zip feature_names ws))"
    by (simp add: map_fst_zip_take distinct_feature_names)
  have "''bias'' \<notin> set feature_names" by (simp add: feature_names_def)
  then have "''bias'' \<notin> fst ` set (zip feature_names ws)"
    by (auto dest: set_zip_leftD)
  then show ?thesis by (simp add: weights_dict_def py_dict_distinct [OF d] dict_set_fresh)
qed

lemma export_success:
  assumes "joblib_load w mp = Inr (LogisticRegression model)"
    and "extract_parameters model = Inr (ws, b)"
    and "file_write w op = WriteOk"
  shows "export_model_weights w d mp op th =
     (True,
      d(op \<mapsto> JsonFile (output_bundle (zip feature_names ws @ [(''bias'', b)])
              (case th of None \<Rightarrow> default_thresholds | Some t \<Rightarrow> t))),
      Loading mp #
        (if length ws \<noteq> length feature_names
         then [WarningNumberOfWeights (length ws) (length feature_names)] else [])
        @ [SuccessfullyExported op])"
  using assms by (simp add: export_model_weights_def Let_def weights_dict_eq)

lemma export_true_reaches:
  assumes "export_model_weights w d mp op th = (True, d', out)"
  shows "\<exists>model ws b. joblib_load w mp = Inr (LogisticRegression model)
          \<and> extract_parameters model = Inr (ws, b) \<and> file_write w op = WriteOk"
  using assms
  by (auto simp add: export_model_weights_def Let_def
      split: sum.splits pyobj.splits write_outcome.splits prod.splits)

lemma bundle_field_output:
  "bundle_field (d(op \<mapsto> JsonFile (output_bundle wd td))) op k =
     map_of [(''model_type'', JStr ''logistic_regression''),
           (''weights'', num_object wd),
           (''thresholds'', num_object td),
           (''feature_names'', JArr (map JStr feature_names))] k"
  by (simp add: bundle_field_def output_bundle_def)

lemma export_true_thresholds:
  assumes "export_model_weights w d mp op th = (True, d', out)"
  shows "bundle_field d' op ''thresholds'' =
     Some (num_object (case th of None \<Rightarrow> default_thresholds | Some t \<Rightarrow> t))"
proof -
  from export_true_reaches [OF assms] obtain model ws b where
    l: "joblib_load w mp = Inr (LogisticRegression model)" and
    x: "extract_parameters model = Inr (ws, b)" and wr: "file_write w op = WriteOk"
    by blast
  from export_success [OF l x wr, of d th] assms show ?thesis
    by (auto simp add: bundle_field_output)
qed

lemma export_main_eq:
  "export_main w d argv = Some r \<Longrightarrow>
     r = export_model_weights w d (argv_model_path argv) (argv_output_path argv)
           (Some main_thresholds)"
  by (simp add: export_main_def Let_def split: if_splits)

text \<open>Evaluations at concrete worlds, shared by the examples.\<close>

lemmas world_simps = world_with_def model_of_def empty_disk_def extract_parameters_def
  index_def

lemma example_export_4:
  "export_model_weights (world_with (Inr (model_of [1, 2, 3, 4] 5)) WriteOk) empty_disk
      ''model.joblib'' ''weights.json'' None =
   (True,
    empty_disk(''weights.json'' \<mapsto> JsonFile (output_bundle
       (zip feature_names [1, 2, 3, 4] @ [(''bias'', 5)]) default_thresholds)),
    [Loading ''model.joblib'', SuccessfullyExported ''weights.json''])"
  by (subst export_success [where ws = "[1, 2, 3, 4]" and b = 5
        and model = "Some \<lparr>coef = [[1, 2, 3, 4]], intercept = [5]\<rparr>"])
     (simp_all add: world_simps feature_names_def)

lemma example_export_3:
  "export_model_weights (world_with (Inr (model_of [1, 2, 3] 5)) WriteOk) empty_disk
      ''model.joblib'' ''weights.json'' None =
   (True,
    empty_disk(''weights.json'' \<mapsto> JsonFile (output_bundle
       (zip feature_names [1, 2, 3] @ [(''bias'', 5)]) default_thresholds)),
    [Loading ''model.joblib'', WarningNumberOfWeights 3 4,
     SuccessfullyExported ''weights.json''])"
  by (subst export_success [where ws = "[1, 2, 3]" and b = 5
        and model = "Some \<lparr>coef = [[1, 2, 3]], intercept = [5]\<rparr>"])
     (simp_all add: world_simps feature_names_def)

lemma example_main_4:
  "export_main (world_with (Inr (model_of [1, 2, 3, 4] 5)) WriteOk) empty_disk
      [''export_model_weights.py''] =
   Some (True,
    empty_disk(default_output_path \<mapsto> JsonFile (output_bundle
       (zip feature_names [1, 2, 3, 4] @ [(''bias'', 5)]) main_thresholds)),
    [Loading default_model_path, SuccessfullyExported default_output_path])"
  unfolding export_main_def Let_def
  by (subst export_success [where ws = "[1, 2, 3, 4]" and b = 5
        and model = "Some \<lparr>coef = [[1, 2, 3, 4]], intercept = [5]\<rparr>"])
     (simp_all add: world_simps feature_names_def argv_output_path_def argv_model_path_def)

text \<open>
  C2 (as the code has it). For every successful export of a model whose coefficient
  vector has at least four entries, the bundle written at the output path has a flat
  \<^verbatim>\<open>weights\<close> object mapping the four feature names to the first four coefficients, in
  order, and \<^verbatim>\<open>bias\<close> to the intercept; a \<^verbatim>\<open>thresholds\<close> object holding the thresholds
  passed (the defaults when none are); the \<^verbatim>\<open>feature_names\<close> list; and \<^verbatim>\<open>model_type\<close>
  equal to \<^verbatim>\<open>logistic_regression\<close>.
\<close>

theorem export_bundle_contents:
  assumes "export_model_weights w d mp op th = (True, d', out)"
    and "joblib_load w mp = Inr (LogisticRegression model)"
    and "extract_parameters model = Inr (ws, b)"
    and "length ws \<ge> 4"
  shows "bundle_field d' op ''weights'' =
           Some (JObj [(''breathing_rate'', JNum (ws ! 0)),
                       (''irregularity_index'', JNum (ws ! 1)),
                       (''amplitude_variation'', JNum (ws ! 2)),
                       (''avg_velocity'', JNum (ws ! 3)),
                       (''bias'', JNum b)])
       \<and> bundle_field d' op ''thresholds'' =
           Some (num_object (case th of None \<Rightarrow> default_thresholds | Some t \<Rightarrow> t))
       \<and> bundle_field d' op ''feature_names'' =
           Some (JArr [JStr ''breathing_rate'', JStr ''irregularity_index'',
                       JStr ''amplitude_variation'', JStr ''avg_velocity''])
       \<and> bundle_field d' op ''model_type'' = Some (JStr ''logistic_regression'')"
proof -
  from export_true_reaches [OF assms(1)] have wr: "file_write w op = WriteOk" by blast
  obtain w0 w1 w2 w3 rest where ws: "ws = w0 # w1 # w2 # w3 # rest"
  proof (cases ws)
    case Nil
    with assms(4) show ?thesis by simp
  next
    case c1: (Cons a1 l1)
    show ?thesis
    proof (cases l1)
      case Nil
      with assms(4) c1 show ?thesis by simp
    next
      case c2: (Cons a2 l2)
      show ?thesis
      proof (cases l2)
        case Nil
        with assms(4) c1 c2 show ?thesis by simp
      next
        case c3: (Cons a3 l3)
        show ?thesis
        proof (cases l3)
          case Nil
          with assms(4) c1 c2 c3 show ?thesis by simp
        next
          case (Cons a4 l4)
          with c1 c2 c3 that show ?thesis by simp
        qed
      qed
    qed
  qed
  have z: "zip feature_names ws =
     [(''breathing_rate'', w0), (''irregularity_index'', w1),
      (''amplitude_variation'', w2), (''avg_velocity'', w3)]"
    by (simp add: ws feature_names_def)
  from export_success [OF assms(2,3) wr, of d th] assms(1)
  have d': "d' = d(op \<mapsto> JsonFile (output_bundle (zip feature_names ws @ [(''bias'', b)])
              (case th of None \<Rightarrow> default_thresholds | Some t \<Rightarrow> t)))"
    by simp
  show ?thesis
    unfolding d' bundle_field_output z
    by (simp add: num_object_def ws feature_names_def)
qed

theorem export_bundle_contents_witness:
  "bundle_field
     (fst (snd (export_model_weights (world_with (Inr (model_of [1, 2, 3, 4] 5)) WriteOk)
        empty_disk ''model.joblib'' ''weights.json'' None)))
     ''weights.json'' ''weights'' =
   Some (JObj [(''breathing_rate'', JNum 1), (''irregularity_index'', JNum 2),
               (''amplitude_variation'', JNum 3), (''avg_velocity'', JNum 4),
               (''bias'', JNum 5)])"
proof -
  let ?w = "world_with (Inr (model_of [1, 2, 3, 4] 5)) WriteOk"
  have l: "joblib_load ?w ''model.joblib'' =
      Inr (LogisticRegression (Some \<lparr>coef = [[1, 2, 3, 4]], intercept = [5]\<rparr>))"
    by (simp add: world_simps)
  have x: "extract_parameters (Some \<lparr>coef = [[1, 2, 3, 4]], intercept = [5]\<rparr>) =
      Inr ([1, 2, 3, 4], 5)"
    by (simp add: world_simps)
  have n: "length [1, 2, 3, 4 :: real] \<ge> 4" by simp
  from export_bundle_contents [OF example_export_4 l x n] show ?thesis
    by (simp add: example_export_4)
qed

text \<open>
  C2 as stated fails: a logistic regression fitted on three features is exported
  successfully, and its \<^verbatim>\<open>weights\<close> object has no entry for \<^verbatim>\<open>avg_velocity\<close>.
\<close>

theorem export_bundle_contents_counterexample:
  "fst (export_model_weights (world_with (Inr (model_of [1, 2, 3] 5)) WriteOk) empty_disk
      ''model.joblib'' ''weights.json'' None) = True
   \<and> bundle_field
     (fst (snd (export_model_weights (world_with (Inr (model_of [1, 2, 3] 5)) WriteOk)
        empty_disk ''model.joblib'' ''weights.json'' None)))
     ''weights.json'' ''weights'' =
   Some (JObj [(''breathing_rate'', JNum 1), (''irregularity_index'', JNum 2),
               (''amplitude_variation'', JNum 3), (''bias'', JNum 5)])
   \<and> json_get (JObj [(''breathing_rate'', JNum 1), (''irregularity_index'', JNum 2),
               (''amplitude_variation'', JNum 3), (''bias'', JNum 5)]) ''avg_velocity'' = None"
  by (simp add: example_export_3 bundle_field_output num_object_def feature_names_def)

text \<open>
  C3. The thresholds written into the bundle are exactly \<^verbatim>\<open>BRADYPNEA_THRESHOLD\<close> = 10,
  \<^verbatim>\<open>TACHYPNEA_THRESHOLD\<close> = 24, \<^verbatim>\<open>IRREGULARITY_THRESHOLD\<close> = 0.4,
  \<^verbatim>\<open>AMPLITUDE_VARIATION_THRESHOLD\<close> = 40 and \<^verbatim>\<open>VELOCITY_THRESHOLD\<close> = 8, both when the
  function is called without thresholds and when the script's entry point calls it; the
  voting rule of \<^const>\<open>abnormal_factors\<close> is the rule with these five cutoffs.
\<close>

theorem exported_thresholds:
  "(export_model_weights w d mp op None = (True, d', out) \<longrightarrow>
      bundle_field d' op ''thresholds'' =
        Some (JObj [(''BRADYPNEA_THRESHOLD'', JNum 10),
                    (''TACHYPNEA_THRESHOLD'', JNum 24),
                    (''IRREGULARITY_THRESHOLD'', JNum 0.4),
                    (''AMPLITUDE_VARIATION_THRESHOLD'', JNum 40),
                    (''VELOCITY_THRESHOLD'', JNum 8)]))
   \<and> (export_main w d argv = Some (True, d', out) \<longrightarrow>
      bundle_field d' (argv_output_path argv) ''thresholds'' =
        Some (JObj [(''BRADYPNEA_THRESHOLD'', JNum 10),
                    (''TACHYPNEA_THRESHOLD'', JNum 24),
                    (''IRREGULARITY_THRESHOLD'', JNum 0.4),
                    (''AMPLITUDE_VARIATION_THRESHOLD'', JNum 40),
                    (''VELOCITY_THRESHOLD'', JNum 8)]))
   \<and> abnormal_factors r i a v =
        (if r < the (map_of default_thresholds ''BRADYPNEA_THRESHOLD'') then 1 else 0)
      + (if r > the (map_of default_thresholds ''TACHYPNEA_THRESHOLD'') then 1 else 0)
      + (if i > the (map_of default_thresholds ''IRREGULARITY_THRESHOLD'') then 1 else 0)
      + (if a > the (map_of default_thresholds ''AMPLITUDE_VARIATION_THRESHOLD'') then 1 else 0)
      + (if v > the (map_of default_thresholds ''VELOCITY_THRESHOLD'') then 1 else 0)"
proof (intro conjI impI)
  assume "export_model_weights w d mp op None = (True, d', out)"
  from export_true_thresholds [OF this] show "bundle_field d' op ''thresholds'' =
        Some (JObj [(''BRADYPNEA_THRESHOLD'', JNum 10),
                    (''TACHYPNEA_THRESHOLD'', JNum 24),
                    (''IRREGULARITY_THRESHOLD'', JNum 0.4),
                    (''AMPLITUDE_VARIATION_THRESHOLD'', JNum 40),
                    (''VELOCITY_THRESHOLD'', JNum 8)])"
    by (simp add: num_object_def default_thresholds_def)
next
  assume "export_main w d argv = Some (True, d', out)"
  from export_main_eq [OF this]
  have "export_model_weights w d (argv_model_path argv) (argv_output_path argv)
           (Some main_thresholds) = (True, d', out)" by simp
  from export_true_thresholds [OF this]
  show "bundle_field d' (argv_output_path argv) ''thresholds'' =
        Some (JObj [(''BRADYPNEA_THRESHOLD'', JNum 10),
                    (''TACHYPNEA_THRESHOLD'', JNum 24),
                    (''IRREGULARITY_THRESHOLD'', JNum 0.4),
                    (''AMPLITUDE_VARIATION_THRESHOLD'', JNum 40),
                    (''VELOCITY_THRESHOLD'', JNum 8)])"
    by (simp add: num_object_def main_thresholds_def)
next
  show "abnormal_factors r i a v =
        (if r < the (map_of default_thresholds ''BRADYPNEA_THRESHOLD'') then 1 else 0)
      + (if r > the (map_of default_thresholds ''TACHYPNEA_THRESHOLD'') then 1 else 0)
      + (if i > the (map_of default_thresholds ''IRREGULARITY_THRESHOLD'') then 1 else 0)
      + (if a > the (map_of default_thresholds ''AMPLITUDE_VARIATION_THRESHOLD'') then 1 else 0)
      + (if v > the (map_of default_thresholds ''VELOCITY_THRESHOLD'') then 1 else 0)"
    by (simp add: abnormal_factors_def default_thresholds_def)
qed

theorem exported_thresholds_witness:
  "bundle_field
     (fst (snd (export_model_weights (world_with (Inr (model_of [1, 2, 3, 4] 5)) WriteOk)
        empty_disk ''model.joblib'' ''weights.json'' None)))
     ''weights.json'' ''thresholds'' =
        Some (JObj [(''BRADYPNEA_THRESHOLD'', JNum 10),
                    (''TACHYPNEA_THRESHOLD'', JNum 24),
                    (''IRREGULARITY_THRESHOLD'', JNum 0.4),
                    (''AMPLITUDE_VARIATION_THRESHOLD'', JNum 40),
                    (''VELOCITY_THRESHOLD'', JNum 8)])
   \<and> bundle_field
     (fst (snd (the (export_main (world_with (Inr (model_of [1, 2, 3, 4] 5)) WriteOk)
        empty_disk [''export_model_weights.py'']))))
     default_output_path ''thresholds'' =
        Some (JObj [(''BRADYPNEA_THRESHOLD'', JNum 10),
                    (''TACHYPNEA_THRESHOLD'', JNum 24),
                    (''IRREGULARITY_THRESHOLD'', JNum 0.4),
                    (''AMPLITUDE_VARIATION_THRESHOLD'', JNum 40),
                    (''VELOCITY_THRESHOLD'', JNum 8)])"
proof -
  have p: "argv_output_path [''export_model_weights.py''] = default_output_path"
    by (simp add: argv_output_path_def)
  from exported_thresholds [THEN conjunct1, rule_format, OF example_export_4]
    exported_thresholds [THEN conjunct2, THEN conjunct1, rule_format, OF example_main_4]
  show ?thesis by (simp add: example_export_4 example_main_4 p)
qed

lemma extract_parameters_row:
  assumes "(length (coef m) = 1 \<and> ws = coef m ! 0 \<and> intercept m \<noteq> [] \<and> b = intercept m ! 0)
         \<or> (1 < length (coef m) \<and> ws = coef m ! 1 \<and> 1 < length (intercept m)
              \<and> b = intercept m ! 1)"
  shows "extract_parameters (Some m) = Inr (ws, b)"
  using assms by (auto simp add: extract_parameters_def index_def Let_def)

text \<open>
  C8. When the model's coefficient count differs from the four feature names (and the
  file can be written), \<^verbatim>\<open>export_model_weights\<close> returns \<^verbatim>\<open>True\<close> and writes the bundle.
  The \<^verbatim>\<open>weights\<close> object of the written file pairs the feature names with the
  coefficients by position (coefficients beyond the fourth are dropped, names beyond the
  last coefficient are absent), followed by \<^verbatim>\<open>bias\<close>; the console shows the warning and no
  error. The coefficients and the intercept are row 0 of a binary model and row 1 of a
  model with several classes.
\<close>

theorem export_mismatched_weights:
  assumes "joblib_load w mp = Inr (LogisticRegression (Some m))"
    and "(length (coef m) = 1 \<and> ws = coef m ! 0 \<and> intercept m \<noteq> [] \<and> b = intercept m ! 0)
         \<or> (1 < length (coef m) \<and> ws = coef m ! 1 \<and> 1 < length (intercept m)
              \<and> b = intercept m ! 1)"
    and "length ws \<noteq> 4"
    and "file_write w op = WriteOk"
  shows "export_model_weights w d mp op th =
     (True,
      d(op \<mapsto> JsonFile (JObj
         [(''model_type'', JStr ''logistic_regression''),
          (''weights'',
             JObj (map (\<lambda>(k, v). (k, JNum v))
                     (zip [''breathing_rate'', ''irregularity_index'',
                           ''amplitude_variation'', ''avg_velocity''] ws)
                   @ [(''bias'', JNum b)])),
          (''thresholds'',
             JObj (map (\<lambda>(k, v). (k, JNum v))
                     (case th of
                        None \<Rightarrow> [(''BRADYPNEA_THRESHOLD'', 10), (''TACHYPNEA_THRESHOLD'', 24),
                                 (''IRREGULARITY_THRESHOLD'', 0.4),
                                 (''AMPLITUDE_VARIATION_THRESHOLD'', 40),
                                 (''VELOCITY_THRESHOLD'', 8)]
                      | Some t \<Rightarrow> t))),
          (''feature_names'',
             JArr [JStr ''breathing_rate'', JStr ''irregularity_index'',
                   JStr ''amplitude_variation'', JStr ''avg_velocity''])])),
      [Loading mp, WarningNumberOfWeights (length ws) 4, SuccessfullyExported op])
    \<and> bundle_field (fst (snd (export_model_weights w d mp op th))) op ''weights'' =
        Some (JObj (map (\<lambda>(k, v). (k, JNum v))
                     (zip [''breathing_rate'', ''irregularity_index'',
                           ''amplitude_variation'', ''avg_velocity''] ws)
                   @ [(''bias'', JNum b)]))
    \<and> map fst (zip [''breathing_rate'', ''irregularity_index'',
                     ''amplitude_variation'', ''avg_velocity''] ws)
        = take (length ws) [''breathing_rate'', ''irregularity_index'',
                            ''amplitude_variation'', ''avg_velocity'']
    \<and> map snd (zip [''breathing_rate'', ''irregularity_index'',
                     ''amplitude_variation'', ''avg_velocity''] ws) = take 4 ws"
proof -
  have f: "map fst (zip [''breathing_rate'', ''irregularity_index'',
                     ''amplitude_variation'', ''avg_velocity''] ws)
        = take (length ws) [''breathing_rate'', ''irregularity_index'',
                            ''amplitude_variation'', ''avg_velocity'']"
    by (simp add: map_fst_zip_take min_def)
  have s: "map snd (zip [''breathing_rate'', ''irregularity_index'',
                     ''amplitude_variation'', ''avg_velocity''] ws) = take 4 ws"
  proof -
    have "length [''breathing_rate'', ''irregularity_index'',
                  ''amplitude_variation'', ''avg_velocity''] = 4" by simp
    then show ?thesis by (simp only: map_snd_zip_take min_def take_all split: if_splits) simp
  qed
  have e: "export_model_weights w d mp op th =
     (True,
      d(op \<mapsto> JsonFile (JObj
         [(''model_type'', JStr ''logistic_regression''),
          (''weights'',
             JObj (map (\<lambda>(k, v). (k, JNum v))
                     (zip [''breathing_rate'', ''irregularity_index'',
                           ''amplitude_variation'', ''avg_velocity''] ws)
                   @ [(''bias'', JNum b)])),
          (''thresholds'',
             JObj (map (\<lambda>(k, v). (k, JNum v))
                     (case th of
                        None \<Rightarrow> [(''BRADYPNEA_THRESHOLD'', 10), (''TACHYPNEA_THRESHOLD'', 24),
                                 (''IRREGULARITY_THRESHOLD'', 0.4),
                                 (''AMPLITUDE_VARIATION_THRESHOLD'', 40),
                                 (''VELOCITY_THRESHOLD'', 8)]
                      | Some t \<Rightarrow> t))),
          (''feature_names'',
             JArr [JStr ''breathing_rate'', JStr ''irregularity_index'',
                   JStr ''amplitude_variation'', JStr ''avg_velocity''])])),
      [Loading mp, WarningNumberOfWeights (length ws) 4, SuccessfullyExported op])"
    using export_success [OF assms(1) extract_parameters_row [OF assms(2)] assms(4), of d th]
      assms(3)
    by (simp add: output_bundle_def num_object_def feature_names_def default_thresholds_def
        split: option.splits)
  show ?thesis
    unfolding e using f s by (simp add: bundle_field_def)
qed

theorem export_mismatched_weights_witness:
  "export_model_weights (world_with (Inr (model_of [1, 2, 3] 5)) WriteOk) empty_disk
      ''model.joblib'' ''weights.json'' None =
     (True,
      empty_disk(''weights.json'' \<mapsto> JsonFile (JObj
         [(''model_type'', JStr ''logistic_regression''),
          (''weights'',
             JObj [(''breathing_rate'', JNum 1), (''irregularity_index'', JNum 2),
                   (''amplitude_variation'', JNum 3), (''bias'', JNum 5)]),
          (''thresholds'',
             JObj [(''BRADYPNEA_THRESHOLD'', JNum 10), (''TACHYPNEA_THRESHOLD'', JNum 24),
                   (''IRREGULARITY_THRESHOLD'', JNum 0.4),
                   (''AMPLITUDE_VARIATION_THRESHOLD'', JNum 40),
                   (''VELOCITY_THRESHOLD'', JNum 8)]),
          (''feature_names'',
             JArr [JStr ''breathing_rate'', JStr ''irregularity_index'',
                   JStr ''amplitude_variation'', JStr ''avg_velocity''])])),
      [Loading ''model.joblib'', WarningNumberOfWeights 3 4,
       SuccessfullyExported ''weights.json''])
   \<and> bundle_field
       (fst (snd (export_model_weights
          (world_with (Inr (model_of [1, 2, 3, 4, 6, 7] 5)) WriteOk)
          empty_disk ''model.joblib'' ''weights.json'' None)))
       ''weights.json'' ''weights'' =
     Some (JObj [(''breathing_rate'', JNum 1), (''irregularity_index'', JNum 2),
                 (''amplitude_variation'', JNum 3), (''avg_velocity'', JNum 4),
                 (''bias'', JNum 5)])
   \<and> bundle_field
       (fst (snd (export_model_weights
          (world_with (Inr (LogisticRegression
             (Some \<lparr>coef = [[9, 8], [1, 2], [7, 6]], intercept = [0, 5, 6]\<rparr>))) WriteOk)
          empty_disk ''model.joblib'' ''weights.json'' None)))
       ''weights.json'' ''weights'' =
     Some (JObj [(''breathing_rate'', JNum 1), (''irregularity_index'', JNum 2),
                 (''bias'', JNum 5)])"
proof -
  note a = export_mismatched_weights [where ws = "[1, 2, 3]" and b = 5
        and m = "\<lparr>coef = [[1, 2, 3]], intercept = [5]\<rparr>"
        and w = "world_with (Inr (model_of [1, 2, 3] 5)) WriteOk" and mp = "''model.joblib''"
        and op = "''weights.json''" and d = empty_disk and th = None, THEN conjunct1]
  note b = export_mismatched_weights [where ws = "[1, 2, 3, 4, 6, 7]" and b = 5
        and m = "\<lparr>coef = [[1, 2, 3, 4, 6, 7]], intercept = [5]\<rparr>"
        and w = "world_with (Inr (model_of [1, 2, 3, 4, 6, 7] 5)) WriteOk"
        and mp = "''model.joblib''"
        and op = "''weights.json''" and d = empty_disk and th = None,
        THEN conjunct2, THEN conjunct1]
  note c = export_mismatched_weights [where ws = "[1, 2]" and b = 5
        and m = "\<lparr>coef = [[9, 8], [1, 2], [7, 6]], intercept = [0, 5, 6]\<rparr>"
        and w = "world_with (Inr (LogisticRegression
             (Some \<lparr>coef = [[9, 8], [1, 2], [7, 6]], intercept = [0, 5, 6]\<rparr>))) WriteOk"
        and mp = "''model.joblib''"
        and op = "''weights.json''" and d = empty_disk and th = None,
        THEN conjunct2, THEN conjunct1]
  have 1: "export_model_weights (world_with (Inr (model_of [1, 2, 3] 5)) WriteOk) empty_disk
      ''model.joblib'' ''weights.json'' None =
     (True,
      empty_disk(''weights.json'' \<mapsto> JsonFile (JObj
         [(''model_type'', JStr ''logistic_regression''),
          (''weights'',
             JObj [(''breathing_rate'', JNum 1), (''irregularity_index'', JNum 2),
                   (''amplitude_variation'', JNum 3), (''bias'', JNum 5)]),
          (''thresholds'',
             JObj [(''BRADYPNEA_THRESHOLD'', JNum 10), (''TACHYPNEA_THRESHOLD'', JNum 24),
                   (''IRREGULARITY_THRESHOLD'', JNum 0.4),
                   (''AMPLITUDE_VARIATION_THRESHOLD'', JNum 40),
                   (''VELOCITY_THRESHOLD'', JNum 8)]),
          (''feature_names'',
             JArr [JStr ''breathing_rate'', JStr ''irregularity_index'',
                   JStr ''amplitude_variation'', JStr ''avg_velocity''])])),
      [Loading ''model.joblib'', WarningNumberOfWeights 3 4,
       SuccessfullyExported ''weights.json''])"
    using a by (simp add: world_with_def model_of_def)
  have 2: "bundle_field
       (fst (snd (export_model_weights
          (world_with (Inr (model_of [1, 2, 3, 4, 6, 7] 5)) WriteOk)
          empty_disk ''model.joblib'' ''weights.json'' None)))
       ''weights.json'' ''weights'' =
     Some (JObj [(''breathing_rate'', JNum 1), (''irregularity_index'', JNum 2),
                 (''amplitude_variation'', JNum 3), (''avg_velocity'', JNum 4),
                 (''bias'', JNum 5)])"
    using b by (simp add: world_with_def model_of_def)
  have 3: "bundle_field
       (fst (snd (export_model_weights
          (world_with (Inr (LogisticRegression
             (Some \<lparr>coef = [[9, 8], [1, 2], [7, 6]], intercept = [0, 5, 6]\<rparr>))) WriteOk)
          empty_disk ''model.joblib'' ''weights.json'' None)))
       ''weights.json'' ''weights'' =
     Some (JObj [(''breathing_rate'', JNum 1), (''irregularity_index'', JNum 2),
                 (''bias'', JNum 5)])"
    using c by (simp add: world_with_def)
  from 1 2 3 show ?thesis by (intro conjI)
qed

text \<open>
  C9. \<^verbatim>\<open>export_model_weights\<close> returns \<^verbatim>\<open>True\<close> only when the model was loaded, is a
  logistic regression whose parameters could be extracted, and the bundle was written to the
  output path. When the loaded object is not a logistic regression, or loading or
  extraction raises, or the output file cannot be opened, it returns \<^verbatim>\<open>False\<close> and
  the disk is unchanged; when writing fails after the file was opened it returns
  \<^verbatim>\<open>False\<close> too.
\<close>

theorem export_returns:
  assumes "export_model_weights w d mp op th = (ok, d', out)"
  shows "(ok \<longrightarrow> reaches_write w mp \<and> file_write w op = WriteOk
              \<and> (\<exists>bundle. d' = d(op \<mapsto> JsonFile bundle)))
       \<and> (joblib_load w mp = Inr OtherObject \<longrightarrow>
              \<not> ok \<and> d' = d \<and> out = [Loading mp, ErrorExpectedLogisticRegression])
       \<and> (\<forall>e. joblib_load w mp = Inl e \<longrightarrow>
              \<not> ok \<and> d' = d \<and> out = [Loading mp, ErrorExporting e])
       \<and> (\<forall>model e. joblib_load w mp = Inr (LogisticRegression model)
              \<and> extract_parameters model = Inl e \<longrightarrow>
              \<not> ok \<and> d' = d \<and> out = [Loading mp, ErrorExporting e])
       \<and> (file_write w op = OpenFails \<longrightarrow> \<not> ok \<and> d' = d)
       \<and> (file_write w op = DumpFails \<longrightarrow> \<not> ok \<and> (d' = d \<or> d' = d(op \<mapsto> PartialFile)))
       \<and> (reaches_write w mp \<and> file_write w op = WriteOk \<longrightarrow> ok)"
  using assms
  by (auto simp add: export_model_weights_def reaches_write_def Let_def
      split: sum.splits pyobj.splits write_outcome.splits prod.splits)

theorem export_returns_witness:
  "fst (export_model_weights (world_with (Inr (model_of [1, 2, 3, 4] 5)) WriteOk) empty_disk
      ''model.joblib'' ''weights.json'' None)
   \<and> file_write (world_with (Inr (model_of [1, 2, 3, 4] 5)) WriteOk) ''weights.json'' = WriteOk
   \<and> export_model_weights (world_with (Inr OtherObject) WriteOk) empty_disk
      ''model.joblib'' ''weights.json'' None =
     (False, empty_disk, [Loading ''model.joblib'', ErrorExpectedLogisticRegression])
   \<and> export_model_weights (world_with (Inl IOError) WriteOk) empty_disk
      ''model.joblib'' ''weights.json'' None =
     (False, empty_disk, [Loading ''model.joblib'', ErrorExporting IOError])
   \<and> export_model_weights (world_with (Inr (LogisticRegression None)) WriteOk) empty_disk
      ''model.joblib'' ''weights.json'' None =
     (False, empty_disk, [Loading ''model.joblib'', ErrorExporting AttributeError])
   \<and> fst (snd (export_model_weights (world_with (Inr (model_of [1, 2, 3, 4] 5)) OpenFails)
      empty_disk ''model.joblib'' ''weights.json'' None)) = empty_disk"
proof -
  have split: "r = (fst r, fst (snd r), snd (snd r))" for r :: "bool \<times> fs \<times> console list"
    by simp
  have tuple: "r = (a, b, c)" if "fst r = a \<and> fst (snd r) = b \<and> snd (snd r) = c"
    for r :: "bool \<times> fs \<times> console list" and a b c
    using that by (cases r) auto
  have 1: "fst (export_model_weights (world_with (Inr (model_of [1, 2, 3, 4] 5)) WriteOk)
      empty_disk ''model.joblib'' ''weights.json'' None)
   \<and> file_write (world_with (Inr (model_of [1, 2, 3, 4] 5)) WriteOk) ''weights.json''
       = WriteOk"
    using export_returns [OF example_export_4] by (simp add: example_export_4)
  have 2: "export_model_weights (world_with (Inr OtherObject) WriteOk) empty_disk
      ''model.joblib'' ''weights.json'' None =
     (False, empty_disk, [Loading ''model.joblib'', ErrorExpectedLogisticRegression])"
    by (rule tuple, insert export_returns [OF split, of "world_with (Inr OtherObject) WriteOk"
          empty_disk "''model.joblib''" "''weights.json''" None])
       (simp add: world_simps)
  have 3: "export_model_weights (world_with (Inl IOError) WriteOk) empty_disk
      ''model.joblib'' ''weights.json'' None =
     (False, empty_disk, [Loading ''model.joblib'', ErrorExporting IOError])"
    by (rule tuple, insert export_returns [OF split, of "world_with (Inl IOError) WriteOk"
          empty_disk "''model.joblib''" "''weights.json''" None])
       (simp add: world_simps)
  have 4: "export_model_weights (world_with (Inr (LogisticRegression None)) WriteOk)
      empty_disk ''model.joblib'' ''weights.json'' None =
     (False, empty_disk, [Loading ''model.joblib'', ErrorExporting AttributeError])"
    by (rule tuple, insert export_returns [OF split,
          of "world_with (Inr (LogisticRegression None)) WriteOk"
          empty_disk "''model.joblib''" "''weights.json''" None])
       (simp add: world_simps)
  have 5: "fst (snd (export_model_weights
      (world_with (Inr (model_of [1, 2, 3, 4] 5)) OpenFails)
      empty_disk ''model.joblib'' ''weights.json'' None)) = empty_disk"
    using export_returns [OF split, of "world_with (Inr (model_of [1, 2, 3, 4] 5)) OpenFails"
          empty_disk "''model.joblib''" "''weights.json''" None]
    by (simp add: world_simps)
  from 1 2 3 4 5 show ?thesis by simp
qed

subsection \<open>The BIDMC samples\<close>

lemma np_mean_nonempty: "xs \<noteq> [] \<Longrightarrow> np_mean xs = Num (mean xs)"
  by (simp add: np_mean_def)

lemma np_std_nonempty: "xs \<noteq> [] \<Longrightarrow> np_std xs = Num (std xs)"
  by (simp add: np_std_def)

lemma sum_list_pos: "xs \<noteq> [] \<Longrightarrow> \<forall>x\<in>set xs. (0::real) < x \<Longrightarrow> 0 < sum_list xs"
  by (induction xs) (auto intro: add_pos_nonneg sum_list_nonneg less_imp_le)

lemma mean_pos: "xs \<noteq> [] \<Longrightarrow> \<forall>x\<in>set xs. 0 < x \<Longrightarrow> 0 < mean xs"
  by (simp add: mean_def sum_list_pos)

lemma foldl_invariant:
  "P a \<Longrightarrow> (\<And>s x. P s \<Longrightarrow> P (f s x)) \<Longrightarrow> P (foldl f a xs)"
  by (induction xs arbitrary: a) auto

lemma breath_step_durations_pos:
  "\<forall>d\<in>set (fst s). 0 < d \<Longrightarrow> \<forall>d\<in>set (fst (breath_step resp_signal s b)). 0 < d"
  by (cases "(resp_signal, s, b)" rule: breath_step.cases) (auto simp add: Let_def)

lemma breath_metrics_durations_pos:
  "\<forall>d\<in>set (fst (breath_metrics resp_signal breaths)). 0 < d"
  unfolding breath_metrics_def
  by (rule foldl_invariant [where P = "\<lambda>s. \<forall>d\<in>set (fst s). 0 < d"])
     (simp_all add: breath_step_durations_pos)

lemma bidmc_loop_records:
  "fst (bidmc_loop world sids (acc, out)) =
     acc @ List.map_filter
       (\<lambda>sid. case process_subject world sid of Inr (Some d) \<Rightarrow> Some d | _ \<Rightarrow> None) sids"
  by (induction sids arbitrary: acc out)
     (auto simp add: List.map_filter_simps split: sum.splits option.splits)

lemma load_bidmc_data_records:
  "fst (load_bidmc_data world) =
     List.map_filter
       (\<lambda>sid. case process_subject world sid of Inr (Some d) \<Rightarrow> Some d | _ \<Rightarrow> None) [1..53]"
  using bidmc_loop_records [of world "[1..53]" "[]" "[]"]
  by (cases "bidmc_loop world [1..53] ([], [])") (simp add: load_bidmc_data_def)

lemma set_map_filter_iff:
  "y \<in> set (List.map_filter f xs) \<longleftrightarrow> (\<exists>x\<in>set xs. f x = Some y)"
  by (induction xs) (auto split: option.splits)

lemma record_of_result:
  "(case r of Inr (Some d) \<Rightarrow> Some d | _ \<Rightarrow> None) = Some y \<longleftrightarrow> r = Inr (Some y)"
  by (cases r; simp split: option.splits)

lemma load_bidmc_data_member:
  "data \<in> set (fst (load_bidmc_data world)) \<longleftrightarrow>
     (\<exists>sid. 1 \<le> sid \<and> sid \<le> 53 \<and> process_subject world sid = Inr (Some data))"
  unfolding load_bidmc_data_records set_map_filter_iff record_of_result
  by auto

lemma process_subject_Some:
  assumes "process_subject world sid = Inr (Some data)"
  shows "\<exists>info age_line gender resp_signal breaths.
      read_info world sid = Inr info \<and> info_field info 5 = Inr age_line
    \<and> info_field info 6 = Inr gender
    \<and> read_signals world sid = Inr resp_signal \<and> read_breaths world sid = Inr breaths
    \<and> subject_data sid (parse_age (py_int world) age_line) gender
         (breath_metrics resp_signal breaths) = Some data"
  using assms
  by (auto simp add: process_subject_def try_bind_def Let_def split: sum.splits)


lemma subject_data_Some:
  assumes "subject_data sid age gender (ds, amps, vs) = Some data"
    and "\<forall>d\<in>set ds. 0 < d"
  shows "ds \<noteq> [] \<and> amps \<noteq> [] \<and> vs \<noteq> [] \<and> 0 < mean ds
    \<and> data =
      [(''subject_id'', PInt sid),
       (''age'', PInt age),
       (''gender'', PInt (if gender = ''M'' then 1 else 0)),
       (''breathing_rate'', PFloat (Num (60 / mean ds))),
       (''avg_amplitude'', PFloat (Num (mean amps))),
       (''max_amplitude'', PFloat (Num (Max (set amps)))),
       (''min_amplitude'', PFloat (Num (Min (set amps)))),
       (''avg_velocity'', PFloat (Num (mean vs))),
       (''amplitude_variability'', PFloat (amplitude_variability amps)),
       (''duration_variability'', PFloat (duration_variability ds)),
       (''abnormal'',
          PInt (abnormal_label (Num (60 / mean ds)) (amplitude_variability amps)
                  (duration_variability ds)))]"
proof -
  from assms(1) have ne: "ds \<noteq> []" "amps \<noteq> []" "vs \<noteq> []"
    by (auto simp add: subject_data_def split: if_splits)
  from mean_pos [OF ne(1) assms(2)] have m: "0 < mean ds" .
  from assms(1) ne m show ?thesis
    by (auto simp add: subject_data_def Let_def np_mean_nonempty)
qed

text \<open>The example directory: subject 1 gives a record, every other subject fails to load.\<close>

lemma example_metrics:
  "breath_metrics [0, 1, 3, 2, 1, 1]
     [(IntCell 0, IntCell 3), (IntCell 3, IntCell 6), (NotInt, IntCell 2)]
     = ([3 / 125, 3 / 125], [3, 1], [2, 1])"
  by (simp add: breath_metrics_def py_slice_def Let_def diff_def)

lemma example_fields:
  "info_field example_info 5 = Inr ''34''" "info_field example_info 6 = Inr ''M''"
  "info_field example_info 7 = Inr ''micu''"
  by (simp_all add: info_field_def example_info_def try_bind_def index_def py_split_def
      strip_def is_space_def)

lemma example_subject:
  "process_subject bidmc_example 1 = Inr (Some example_record)"
  by (simp add: process_subject_def bidmc_example_def try_bind_def example_fields Let_def
      example_metrics parse_age_def subject_data_def np_mean_def mean_def
      amplitude_variability_def duration_variability_def np_std_def std_def
      abnormal_label_def is_abnormal_def example_record_def)

text \<open>
  C5. Every record that \<^verbatim>\<open>load_bidmc_data\<close> returns comes from a subject between 1 and 53
  whose files were read, and is the dictionary with exactly the eleven keys
  \<^verbatim>\<open>subject_id\<close>, \<^verbatim>\<open>age\<close>, \<^verbatim>\<open>gender\<close>, \<^verbatim>\<open>breathing_rate\<close>, \<^verbatim>\<open>avg_amplitude\<close>,
  \<^verbatim>\<open>max_amplitude\<close>, \<^verbatim>\<open>min_amplitude\<close>, \<^verbatim>\<open>avg_velocity\<close>, \<^verbatim>\<open>amplitude_variability\<close>,
  \<^verbatim>\<open>duration_variability\<close> and \<^verbatim>\<open>abnormal\<close>, where the breathing rate is 60 divided by the
  (positive) mean breath duration, gender is 1 when the parsed gender string is \<^verbatim>\<open>M\<close> and 0
  otherwise, and the abnormal label is 0 or 1.
\<close>

theorem bidmc_record_fields:
  assumes "data \<in> set (fst (load_bidmc_data world))"
  shows "\<exists>subject_id info age_line gender resp_signal breaths ds amps vs.
      1 \<le> subject_id \<and> subject_id \<le> 53
    \<and> read_info world subject_id = Inr info
    \<and> info_field info 5 = Inr age_line \<and> info_field info 6 = Inr gender
    \<and> read_signals world subject_id = Inr resp_signal
    \<and> read_breaths world subject_id = Inr breaths
    \<and> breath_metrics resp_signal breaths = (ds, amps, vs)
    \<and> ds \<noteq> [] \<and> amps \<noteq> [] \<and> vs \<noteq> [] \<and> 0 < mean ds
    \<and> data =
      [(''subject_id'', PInt subject_id),
       (''age'', PInt (parse_age (py_int world) age_line)),
       (''gender'', PInt (if gender = ''M'' then 1 else 0)),
       (''breathing_rate'', PFloat (Num (60 / mean ds))),
       (''avg_amplitude'', PFloat (Num (mean amps))),
       (''max_amplitude'', PFloat (Num (Max (set amps)))),
       (''min_amplitude'', PFloat (Num (Min (set amps)))),
       (''avg_velocity'', PFloat (Num (mean vs))),
       (''amplitude_variability'', PFloat (amplitude_variability amps)),
       (''duration_variability'', PFloat (duration_variability ds)),
       (''abnormal'',
          PInt (abnormal_label (Num (60 / mean ds)) (amplitude_variability amps)
                  (duration_variability ds)))]
    \<and> (abnormal_of data = 0 \<or> abnormal_of data = 1)"
proof -
  from assms obtain sid where sid: "1 \<le> sid" "sid \<le> 53"
    and p: "process_subject world sid = Inr (Some data)"
    unfolding load_bidmc_data_member by blast
  from process_subject_Some [OF p] obtain info age_line gender resp_signal breaths where
    r: "read_info world sid = Inr info" "info_field info 5 = Inr age_line"
       "info_field info 6 = Inr gender" "read_signals world sid = Inr resp_signal"
       "read_breaths world sid = Inr breaths"
    and d: "subject_data sid (parse_age (py_int world) age_line) gender
         (breath_metrics resp_signal breaths) = Some data"
    by blast
  obtain ds amps vs where m: "breath_metrics resp_signal breaths = (ds, amps, vs)"
    by (cases "breath_metrics resp_signal breaths")
  from breath_metrics_durations_pos [of resp_signal breaths] m
  have pos: "\<forall>d\<in>set ds. 0 < d" by simp
  from subject_data_Some [OF d [unfolded m] pos]
  have s: "ds \<noteq> [] \<and> amps \<noteq> [] \<and> vs \<noteq> [] \<and> 0 < mean ds \<and> data =
      [(''subject_id'', PInt sid),
       (''age'', PInt (parse_age (py_int world) age_line)),
       (''gender'', PInt (if gender = ''M'' then 1 else 0)),
       (''breathing_rate'', PFloat (Num (60 / mean ds))),
       (''avg_amplitude'', PFloat (Num (mean amps))),
       (''max_amplitude'', PFloat (Num (Max (set amps)))),
       (''min_amplitude'', PFloat (Num (Min (set amps)))),
       (''avg_velocity'', PFloat (Num (mean vs))),
       (''amplitude_variability'', PFloat (amplitude_variability amps)),
       (''duration_variability'', PFloat (duration_variability ds)),
       (''abnormal'',
          PInt (abnormal_label (Num (60 / mean ds)) (amplitude_variability amps)
                  (duration_variability ds)))]" .
  then have a: "abnormal_of data = 0 \<or> abnormal_of data = 1"
    by (simp add: abnormal_of_def abnormal_label_def)
  from sid r m s a show ?thesis by blast
qed


theorem bidmc_record_fields_witness:
  "example_record \<in> set (fst (load_bidmc_data bidmc_example))
   \<and> (\<exists>subject_id info age_line gender resp_signal breaths ds amps vs.
      1 \<le> subject_id \<and> subject_id \<le> 53
    \<and> read_info bidmc_example subject_id = Inr info
    \<and> info_field info 5 = Inr age_line \<and> info_field info 6 = Inr gender
    \<and> read_signals bidmc_example subject_id = Inr resp_signal
    \<and> read_breaths bidmc_example subject_id = Inr breaths
    \<and> breath_metrics resp_signal breaths = (ds, amps, vs)
    \<and> ds \<noteq> [] \<and> amps \<noteq> [] \<and> vs \<noteq> [] \<and> 0 < mean ds
    \<and> example_record =
      [(''subject_id'', PInt subject_id),
       (''age'', PInt (parse_age (py_int bidmc_example) age_line)),
       (''gender'', PInt (if gender = ''M'' then 1 else 0)),
       (''breathing_rate'', PFloat (Num (60 / mean ds))),
       (''avg_amplitude'', PFloat (Num (mean amps))),
       (''max_amplitude'', PFloat (Num (Max (set amps)))),
       (''min_amplitude'', PFloat (Num (Min (set amps)))),
       (''avg_velocity'', PFloat (Num (mean vs))),
       (''amplitude_variability'', PFloat (amplitude_variability amps)),
       (''duration_variability'', PFloat (duration_variability ds)),
       (''abnormal'',
          PInt (abnormal_label (Num (60 / mean ds)) (amplitude_variability amps)
                  (duration_variability ds)))]
    \<and> (abnormal_of example_record = 0 \<or> abnormal_of example_record = 1))"
proof -
  have h: "example_record \<in> set (fst (load_bidmc_data bidmc_example))"
    unfolding load_bidmc_data_member using example_subject by (intro exI [of _ 1]) simp
  from h bidmc_record_fields [OF h] show ?thesis by (rule conjI)
qed

subsection \<open>The variability metrics\<close>

lemma std_eq: "0 \<le> s \<Longrightarrow> mean (map (\<lambda>x. (x - mean xs)\<^sup>2) xs) = s\<^sup>2 \<Longrightarrow> std xs = s"
  by (simp add: std_def)

lemma np_divide_Num: "y \<noteq> 0 \<Longrightarrow> np_divide (Num x) (Num y) = Num (x / y)"
  by simp

lemma qr_amplitude_variability_eq:
  "qr_amplitude_variability amplitudes (Some avg) =
     (if 0 < avg
      then (if amplitudes = [] then Inl ZeroDivisionError
            else Inr (Num (std amplitudes / avg)))
      else Inr (Num 0))"
  by (simp add: qr_amplitude_variability_def column_std_def try_bind_def)

lemma qr_duration_variability_eq:
  "qr_duration_variability durations =
     Num (if durations \<noteq> [] \<and> 0 < mean durations then std durations / mean durations
          else 0)"
  by (simp add: qr_duration_variability_def np_mean_def np_std_def)

text \<open>
  Where they are evaluated on data, the four variability computations are the standard
  deviation divided by a strictly positive divisor, or 0: no division by zero happens in
  the divisions the source writes out.
\<close>

lemma variability_guarded:
  "amplitude_variability amps =
     Num (if amps \<noteq> [] \<and> 0 < mean amps then std amps / mean amps else 0)
   \<and> duration_variability ds =
     Num (if ds \<noteq> [] \<and> 0 < mean ds then std ds / mean ds else 0)
   \<and> (amplitudes \<noteq> [] \<longrightarrow> qr_amplitude_variability amplitudes (Some avg) =
     Inr (Num (if 0 < avg then std amplitudes / avg else 0)))
   \<and> qr_duration_variability durations =
     Num (if durations \<noteq> [] \<and> 0 < mean durations then std durations / mean durations
          else 0)"
  by (simp add: amplitude_variability_def duration_variability_def
      qr_amplitude_variability_eq qr_duration_variability_eq np_mean_def np_std_def Let_def)

text \<open>The groups partition the rows in order; none is empty; a group of several rows has
  one phase, present in all its rows; neighbouring groups cannot be merged.\<close>

lemma phase_groups_concat: "concat (phase_groups df) = df"
  by (induction df) (auto split: list.splits)

lemma phase_groups_nonempty: "g \<in> set (phase_groups df) \<Longrightarrow> g \<noteq> []"
  by (induction df arbitrary: g) (auto split: list.splits if_splits)

lemma same_phase_Some: "same_phase r r' \<longleftrightarrow> (\<exists>p. breathing_phase r = Some p \<and> breathing_phase r' = Some p)"
  by (simp add: same_phase_def split: option.splits)

lemma phase_groups_one_phase:
  "g \<in> set (phase_groups df) \<Longrightarrow>
     length g = 1 \<or> (\<exists>p. \<forall>r\<in>set g. breathing_phase r = Some p)"
proof (induction df arbitrary: g)
  case Nil
  then show ?case by simp
next
  case (Cons x df)
  show ?case
  proof (cases "phase_groups df")
    case Nil
    with Cons.prems show ?thesis by simp
  next
    case c: (Cons g0 gs)
    have g0: "g0 \<in> set (phase_groups df)" using c by simp
    from phase_groups_nonempty [OF g0] have ne: "g0 \<noteq> []" .
    show ?thesis
    proof (cases "same_phase x (hd g0)")
      case True
      then obtain p where p: "breathing_phase x = Some p" "breathing_phase (hd g0) = Some p"
        unfolding same_phase_Some by blast
      from Cons.IH [OF g0] ne p(2) have all: "\<forall>r\<in>set g0. breathing_phase r = Some p"
        by (cases g0) (auto simp add: length_Suc_conv)
      from Cons.prems c True have "g = x # g0 \<or> g \<in> set gs" by simp
      then show ?thesis
      proof
        assume "g = x # g0"
        with all p(1) show ?thesis by auto
      next
        assume "g \<in> set gs"
        with Cons.IH [of g] c show ?thesis by simp
      qed
    next
      case False
      with Cons.prems c have "g = [x] \<or> g \<in> set (phase_groups df)" by auto
      with Cons.IH [of g] show ?thesis by auto
    qed
  qed
qed

text \<open>Two rows without phase are two groups; the two rows with the same phase after them
  are one.\<close>

lemma phase_groups_missing_phase:
  "phase_groups
     [\<lparr>timestamp = 0, amplitude = 1, velocity = 1, breathing_phase = None\<rparr>,
      \<lparr>timestamp = 1, amplitude = 1, velocity = 1, breathing_phase = None\<rparr>,
      \<lparr>timestamp = 2, amplitude = 1, velocity = 1, breathing_phase = Some ''inhale''\<rparr>,
      \<lparr>timestamp = 4, amplitude = 1, velocity = 1, breathing_phase = Some ''inhale''\<rparr>] =
   [[\<lparr>timestamp = 0, amplitude = 1, velocity = 1, breathing_phase = None\<rparr>],
    [\<lparr>timestamp = 1, amplitude = 1, velocity = 1, breathing_phase = None\<rparr>],
    [\<lparr>timestamp = 2, amplitude = 1, velocity = 1, breathing_phase = Some ''inhale''\<rparr>,
     \<lparr>timestamp = 4, amplitude = 1, velocity = 1, breathing_phase = Some ''inhale''\<rparr>]]"
  by (simp add: same_phase_def)

lemma phase_groups_maximal:
  "Suc i < length (phase_groups df) \<Longrightarrow>
     \<not> same_phase (last (phase_groups df ! i)) (hd (phase_groups df ! Suc i))"
proof (induction df arbitrary: i)
  case Nil
  then show ?case by simp
next
  case (Cons x df)
  show ?case
  proof (cases "phase_groups df")
    case Nil
    with Cons.prems show ?thesis by simp
  next
    case c: (Cons g0 gs)
    have g0: "g0 \<in> set (phase_groups df)" using c by simp
    from phase_groups_nonempty [OF g0] have ne: "g0 \<noteq> []" .
    show ?thesis
    proof (cases "same_phase x (hd g0)")
      case True
      then have pg: "phase_groups (x # df) = (x # g0) # gs" using c by simp
      show ?thesis
      proof (cases i)
        case 0
        with Cons.IH [of 0] Cons.prems c pg ne show ?thesis by simp
      next
        case (Suc j)
        with Cons.IH [of i] Cons.prems c pg show ?thesis by simp
      qed
    next
      case False
      then have pg: "phase_groups (x # df) = [x] # g0 # gs" using c by simp
      show ?thesis
      proof (cases i)
        case 0
        with False pg show ?thesis by simp
      next
        case (Suc j)
        with Cons.IH [of j] Cons.prems c pg show ?thesis by simp
      qed
    qed
  qed
qed

subsection \<open>The session records of exported logs\<close>

lemma session_summary_rows:
  assumes "h_avg_amplitude h = Some avg" and "df \<noteq> []"
  shows "session_summary world h file_path df =
     Inr (summary_data h file_path (Num (mean (map (\<lambda>r. \<bar>velocity r\<bar>) df)))
            (Num (if 0 < avg then std (map amplitude df) / avg else 0))
            (Num (if phase_durations df \<noteq> [] \<and> 0 < mean (phase_durations df)
                  then std (phase_durations df) / mean (phase_durations df) else 0)))"
  using assms
  by (simp add: session_summary_def Let_def qr_amplitude_variability_eq
      qr_duration_variability_eq column_mean_def try_bind_def)

lemma session_summary_no_rows:
  assumes "h_avg_amplitude h = Some avg" and "0 < avg"
  shows "session_summary world h file_path [] = Inl ZeroDivisionError"
  using assms
  by (simp add: session_summary_def Let_def qr_amplitude_variability_eq try_bind_def)

lemma summary_data_lookup:
  "map_of (summary_data h p a b c) ''avg_velocity'' = Some (PFloat a)"
  "map_of (summary_data h p a b c) ''amplitude_variability'' = Some (PFloat b)"
  "map_of (summary_data h p a b c) ''duration_variability'' = Some (PFloat c)"
  by (simp_all add: summary_data_def)

lemma process_file_parsed:
  assumes "read_text world file_path = Inr content"
    and "header_loop world 0 (py_split content [CHR 0x0A]) (empty_header, header_index)
           = Inr (h, Some skiprows)"
    and "read_csv world file_path skiprows = Inr df"
  shows "process_file world (all_data, header_index, out) file_path =
     (case session_summary world h file_path df of
        Inl e \<Rightarrow> (all_data, Some skiprows, out @ [ErrorLoading file_path e])
      | Inr summary \<Rightarrow>
          (all_data @ [summary], Some skiprows,
           out @ [case h_breathing_rate h of
                    None \<Rightarrow> ErrorLoading file_path TypeError
                  | Some rate \<Rightarrow> ProcessedFile file_path rate]))"
  using assms
  by (simp add: process_file_def try_bind_def split: sum.splits option.splits)

text \<open>Evaluation of the example logs.\<close>

lemmas qr_eval = example_log_def py_split_def parse_line_def try_bind_def
  text_after_def text_between_def index_def as_float_def as_int_def strip_def is_space_def
  empty_header_def example_rows_text_def example_runs_text_def

lemma qr_example_reads:
  "read_text (qr_example_with hl dl rows) p = Inr (example_log hl dl)"
  "read_csv (qr_example_with hl dl rows) p n = Inr rows"
  "qr_float (qr_example_with hl dl rows) =
     (\<lambda>s. if s = ''0'' then Some 0 else if s = ''2'' then Some 2
          else if s = ''12'' then Some 12 else None)"
  "qr_int (qr_example_with hl dl rows) = (\<lambda>s. if s = ''34'' then Some 34 else None)"
  by (simp_all add: qr_example_with_def)

lemma example_header_full:
  "header_loop (qr_example_with
        [''ID: 7'', ''Breathing Rate: 12 breaths/minute'', ''Average Amplitude: 2''] dl rows)
     0
     (py_split
        (example_log
           [''ID: 7'', ''Breathing Rate: 12 breaths/minute'', ''Average Amplitude: 2''] dl)
        [CHR 0x0A])
     (empty_header, None) =
   Inr (empty_header\<lparr>h_patient_id := Some ''7'', h_breathing_rate := Some 12,
          h_avg_amplitude := Some 2\<rparr>, Some 3)"
  by (simp add: qr_eval qr_example_reads)

lemma example_header_zero:
  "header_loop (qr_example_with
        [''ID: 7'', ''Breathing Rate: 12 breaths/minute'', ''Average Amplitude: 0''] dl rows)
     0
     (py_split
        (example_log
           [''ID: 7'', ''Breathing Rate: 12 breaths/minute'', ''Average Amplitude: 0''] dl)
        [CHR 0x0A])
     (empty_header, None) =
   Inr (empty_header\<lparr>h_patient_id := Some ''7'', h_breathing_rate := Some 12,
          h_avg_amplitude := Some 0\<rparr>, Some 3)"
  by (simp add: qr_eval qr_example_reads)

lemma example_header_no_rate:
  "header_loop (qr_example_with [''ID: 7'', ''Average Amplitude: 2''] dl rows) 0
     (py_split (example_log [''ID: 7'', ''Average Amplitude: 2''] dl) [CHR 0x0A])
     (empty_header, None) =
   Inr (empty_header\<lparr>h_patient_id := Some ''7'', h_avg_amplitude := Some 2\<rparr>, Some 2)"
  by (simp add: qr_eval qr_example_reads)

lemma example_rows_groups:
  "phase_groups example_rows = [take 3 example_rows, drop 3 example_rows]"
  by (simp add: example_rows_def same_phase_def)

lemma example_rows_durations: "phase_durations example_rows = [2]"
  by (simp add: phase_durations_def example_rows_def same_phase_def)

lemma example_runs_groups:
  "phase_groups example_runs =
     [take 2 example_runs, [example_runs ! 2], [example_runs ! 3], [example_runs ! 4],
      drop 5 example_runs]"
  by (simp add: example_runs_def same_phase_def)

lemma example_runs_durations: "phase_durations example_runs = [1, 2]"
  by (simp add: phase_durations_def example_runs_def same_phase_def)

lemma example_std:
  "std [1, 3, 1, 3] = 1" "std [7, 1, 6, 2, 5, 3, 4] = 2" "std [1, 2] = 1 / 2"
  "std [1, 0, 0, 0, 2] = 4 / 5"
  by (rule std_eq; simp add: mean_def power2_eq_square)+

lemma example_rows_columns:
  "map amplitude example_rows = [1, 3, 1, 3]"
  "map (\<lambda>r. \<bar>velocity r\<bar>) example_rows = [1, 3, 1, 3]"
  "example_rows \<noteq> []"
  by (simp_all add: example_rows_def)

lemma example_runs_columns:
  "map amplitude example_runs = [7, 1, 6, 2, 5, 3, 4]"
  "map (\<lambda>r. \<bar>velocity r\<bar>) example_runs = [1, 1, 2, 2, 3, 3, 2]"
  "example_runs \<noteq> []"
  by (simp_all add: example_runs_def)

lemma example_rows_summary:
  "h_avg_amplitude h = Some avg \<Longrightarrow> session_summary world h p example_rows =
    Inr (summary_data h p (Num 2) (Num (if 0 < avg then 1 / avg else 0)) (Num 0))"
  unfolding session_summary_rows [OF _ example_rows_columns(3)] example_rows_durations
    example_rows_columns example_std
  by (simp add: mean_def std_def)

lemma example_runs_summary:
  "h_avg_amplitude h = Some avg \<Longrightarrow> session_summary world h p example_runs =
    Inr (summary_data h p (Num 2) (Num (if 0 < avg then 2 / avg else 0)) (Num (1 / 3)))"
  unfolding session_summary_rows [OF _ example_runs_columns(3)] example_runs_durations
    example_runs_columns example_std
  by (simp add: mean_def)

lemma example_process_runs:
  "process_file
     (qr_example_with
        [''ID: 7'', ''Breathing Rate: 12 breaths/minute'', ''Average Amplitude: 2'']
        example_runs_text example_runs)
     ([], None, []) example_path =
   ([[(''patient_id'', PStr ''7''), (''age'', PInt 0), (''gender'', PInt 0),
      (''health_status'', PStr ''Unknown''), (''breathing_rate'', PFloat (Num 12)),
      (''avg_amplitude'', PFloat (Num 2)), (''max_amplitude'', PFloat (Num 0)),
      (''min_amplitude'', PFloat (Num 0)), (''avg_velocity'', PFloat (Num 2)),
      (''amplitude_variability'', PFloat (Num 1)),
      (''duration_variability'', PFloat (Num (1 / 3))),
      (''file_path'', PStr ''respiratory_data_1.csv'')]],
    Some 3, [ProcessedFile example_path 12])"
  unfolding process_file_parsed [OF qr_example_reads(1) example_header_full qr_example_reads(2)]
  by (simp add: example_runs_summary summary_data_def example_path_def basename_def
        empty_header_def)

lemma example_process_runs_zero:
  "process_file
     (qr_example_with
        [''ID: 7'', ''Breathing Rate: 12 breaths/minute'', ''Average Amplitude: 0'']
        example_runs_text example_runs)
     ([], None, []) example_path =
   ([[(''patient_id'', PStr ''7''), (''age'', PInt 0), (''gender'', PInt 0),
      (''health_status'', PStr ''Unknown''), (''breathing_rate'', PFloat (Num 12)),
      (''avg_amplitude'', PFloat (Num 0)), (''max_amplitude'', PFloat (Num 0)),
      (''min_amplitude'', PFloat (Num 0)), (''avg_velocity'', PFloat (Num 2)),
      (''amplitude_variability'', PFloat (Num 0)),
      (''duration_variability'', PFloat (Num (1 / 3))),
      (''file_path'', PStr ''respiratory_data_1.csv'')]],
    Some 3, [ProcessedFile example_path 12])"
  unfolding process_file_parsed [OF qr_example_reads(1) example_header_zero qr_example_reads(2)]
  by (simp add: example_runs_summary summary_data_def example_path_def basename_def
        empty_header_def)

lemma example_process_no_rate:
  "process_file (qr_example [''ID: 7'', ''Average Amplitude: 2'']) ([], None, [])
     example_path =
   ([[(''patient_id'', PStr ''7''), (''age'', PInt 0), (''gender'', PInt 0),
      (''health_status'', PStr ''Unknown''), (''breathing_rate'', PFloat (Num 0)),
      (''avg_amplitude'', PFloat (Num 2)), (''max_amplitude'', PFloat (Num 0)),
      (''min_amplitude'', PFloat (Num 0)), (''avg_velocity'', PFloat (Num 2)),
      (''amplitude_variability'', PFloat (Num 0.5)),
      (''duration_variability'', PFloat (Num 0)),
      (''file_path'', PStr ''respiratory_data_1.csv'')]],
    Some 2, [ErrorLoading example_path TypeError])"
  unfolding qr_example_def
    process_file_parsed [OF qr_example_reads(1) example_header_no_rate qr_example_reads(2)]
  by (simp add: example_rows_summary summary_data_def example_path_def basename_def
        empty_header_def)

lemma example_process_no_rows:
  "process_file
     (qr_example_with
        [''ID: 7'', ''Breathing Rate: 12 breaths/minute'', ''Average Amplitude: 2''] [] [])
     ([], None, []) example_path =
   ([], Some 3, [ErrorLoading example_path ZeroDivisionError])"
  unfolding process_file_parsed [OF qr_example_reads(1) example_header_full qr_example_reads(2)]
  by (simp add: session_summary_no_rows [where avg = 2])

text \<open>
  C6 (as the code has it). For a log that parses (its text is read, the header loop ends
  at the line of column names, the data frame is read and the header gives an average
  amplitude) and has at least one row, \<^verbatim>\<open>load_qr_respiratory_data\<close> appends one record
  for the file. Its \<^verbatim>\<open>avg_velocity\<close> is the mean of the absolute velocities. Its
  \<^verbatim>\<open>amplitude_variability\<close> is the standard deviation of the amplitudes divided by the
  header's average amplitude when that average is positive, and 0 otherwise. Its
  \<^verbatim>\<open>duration_variability\<close> is computed from the maximal runs of consecutive rows with the
  same phase (the runs partition the rows in order, a run of several rows has one phase,
  neighbouring runs cannot be merged): the durations are last minus first time stamp of the
  runs with at least two rows, and the value is their standard deviation over their mean
  when there is such a run and the mean is positive, and 0 otherwise. A log without rows
  whose average amplitude is positive gives no record: \<^verbatim>\<open>np.std\<close> raises.
\<close>

theorem qr_session_record:
  assumes "read_text world file_path = Inr content"
    and "header_loop world 0 (py_split content [CHR 0x0A]) (empty_header, header_index)
           = Inr (h, Some skiprows)"
    and "read_csv world file_path skiprows = Inr df"
    and "h_avg_amplitude h = Some avg"
  shows "(df \<noteq> [] \<longrightarrow>
      (\<exists>summary groups durations.
          fst (process_file world (all_data, header_index, out) file_path)
            = all_data @ [summary]
        \<and> map_of summary ''avg_velocity'' =
            Some (PFloat (Num (mean (map (\<lambda>r. \<bar>velocity r\<bar>) df))))
        \<and> map_of summary ''amplitude_variability'' =
            Some (PFloat (Num (if 0 < avg then std (map amplitude df) / avg else 0)))
        \<and> concat groups = df
        \<and> (\<forall>g\<in>set groups. g \<noteq> []
              \<and> (length g = 1 \<or> (\<exists>p. \<forall>r\<in>set g. breathing_phase r = Some p)))
        \<and> (\<forall>i. Suc i < length groups \<longrightarrow>
              \<not> (\<exists>p. breathing_phase (last (groups ! i)) = Some p
                     \<and> breathing_phase (hd (groups ! Suc i)) = Some p))
        \<and> durations = map (\<lambda>g. timestamp (last g) - timestamp (hd g))
                         (filter (\<lambda>g. length g > 1) groups)
        \<and> map_of summary ''duration_variability'' =
            Some (PFloat (Num (if durations \<noteq> [] \<and> 0 < mean durations
                               then std durations / mean durations else 0)))))
     \<and> (df = [] \<and> 0 < avg \<longrightarrow>
          process_file world (all_data, header_index, out) file_path
            = (all_data, Some skiprows, out @ [ErrorLoading file_path ZeroDivisionError]))"
proof (intro conjI impI)
  assume ne: "df \<noteq> []"
  let ?summary = "summary_data h file_path (Num (mean (map (\<lambda>r. \<bar>velocity r\<bar>) df)))
            (Num (if 0 < avg then std (map amplitude df) / avg else 0))
            (Num (if phase_durations df \<noteq> [] \<and> 0 < mean (phase_durations df)
                  then std (phase_durations df) / mean (phase_durations df) else 0))"
  have p: "fst (process_file world (all_data, header_index, out) file_path)
            = all_data @ [?summary]"
    by (simp add: process_file_parsed [OF assms(1-3)] session_summary_rows [OF assms(4) ne])
  have g1: "\<forall>g\<in>set (phase_groups df). g \<noteq> []
              \<and> (length g = 1 \<or> (\<exists>p. \<forall>r\<in>set g. breathing_phase r = Some p))"
    using phase_groups_nonempty phase_groups_one_phase by blast
  have g2: "\<forall>i. Suc i < length (phase_groups df) \<longrightarrow>
              \<not> (\<exists>p. breathing_phase (last (phase_groups df ! i)) = Some p
                     \<and> breathing_phase (hd (phase_groups df ! Suc i)) = Some p)"
    using phase_groups_maximal [of _ df] unfolding same_phase_Some by blast
  have d: "phase_durations df = map (\<lambda>g. timestamp (last g) - timestamp (hd g))
                         (filter (\<lambda>g. length g > 1) (phase_groups df))"
    by (simp add: phase_durations_def)
  show "\<exists>summary groups durations.
          fst (process_file world (all_data, header_index, out) file_path)
            = all_data @ [summary]
        \<and> map_of summary ''avg_velocity'' =
            Some (PFloat (Num (mean (map (\<lambda>r. \<bar>velocity r\<bar>) df))))
        \<and> map_of summary ''amplitude_variability'' =
            Some (PFloat (Num (if 0 < avg then std (map amplitude df) / avg else 0)))
        \<and> concat groups = df
        \<and> (\<forall>g\<in>set groups. g \<noteq> []
              \<and> (length g = 1 \<or> (\<exists>p. \<forall>r\<in>set g. breathing_phase r = Some p)))
        \<and> (\<forall>i. Suc i < length groups \<longrightarrow>
              \<not> (\<exists>p. breathing_phase (last (groups ! i)) = Some p
                     \<and> breathing_phase (hd (groups ! Suc i)) = Some p))
        \<and> durations = map (\<lambda>g. timestamp (last g) - timestamp (hd g))
                         (filter (\<lambda>g. length g > 1) groups)
        \<and> map_of summary ''duration_variability'' =
            Some (PFloat (Num (if durations \<noteq> [] \<and> 0 < mean durations
                               then std durations / mean durations else 0)))"
    apply (rule exI [of _ ?summary])
    apply (rule exI [of _ "phase_groups df"])
    apply (rule exI [of _ "phase_durations df"])
    using p g1 g2 d phase_groups_concat [of df]
    by (simp only: summary_data_lookup simp_thms)
next
  assume "df = [] \<and> 0 < avg"
  then show "process_file world (all_data, header_index, out) file_path
            = (all_data, Some skiprows, out @ [ErrorLoading file_path ZeroDivisionError])"
    using process_file_parsed [OF assms(1-3), of all_data out]
      session_summary_no_rows [OF assms(4), of world file_path]
    by simp
qed

theorem qr_session_record_witness:
  "fst (process_file
     (qr_example_with
        [''ID: 7'', ''Breathing Rate: 12 breaths/minute'', ''Average Amplitude: 2'']
        example_runs_text example_runs)
     ([], None, []) example_path) =
   [[(''patient_id'', PStr ''7''), (''age'', PInt 0), (''gender'', PInt 0),
      (''health_status'', PStr ''Unknown''), (''breathing_rate'', PFloat (Num 12)),
      (''avg_amplitude'', PFloat (Num 2)), (''max_amplitude'', PFloat (Num 0)),
      (''min_amplitude'', PFloat (Num 0)), (''avg_velocity'', PFloat (Num 2)),
      (''amplitude_variability'', PFloat (Num 1)),
      (''duration_variability'', PFloat (Num (1 / 3))),
      (''file_path'', PStr ''respiratory_data_1.csv'')]]
   \<and> (\<exists>summary groups durations.
          fst (process_file
                 (qr_example_with
                    [''ID: 7'', ''Breathing Rate: 12 breaths/minute'',
                     ''Average Amplitude: 2'']
                    example_runs_text example_runs)
                 ([], None, []) example_path)
            = [] @ [summary]
        \<and> map_of summary ''avg_velocity'' =
            Some (PFloat (Num (mean (map (\<lambda>r. \<bar>velocity r\<bar>) example_runs))))
        \<and> map_of summary ''amplitude_variability'' =
            Some (PFloat (Num (if 0 < (2::real) then std (map amplitude example_runs) / 2
                               else 0)))
        \<and> concat groups = example_runs
        \<and> (\<forall>g\<in>set groups. g \<noteq> []
              \<and> (length g = 1 \<or> (\<exists>p. \<forall>r\<in>set g. breathing_phase r = Some p)))
        \<and> (\<forall>i. Suc i < length groups \<longrightarrow>
              \<not> (\<exists>p. breathing_phase (last (groups ! i)) = Some p
                     \<and> breathing_phase (hd (groups ! Suc i)) = Some p))
        \<and> durations = map (\<lambda>g. timestamp (last g) - timestamp (hd g))
                         (filter (\<lambda>g. length g > 1) groups)
        \<and> map_of summary ''duration_variability'' =
            Some (PFloat (Num (if durations \<noteq> [] \<and> 0 < mean durations
                               then std durations / mean durations else 0))))"
proof -
  have a: "h_avg_amplitude (empty_header\<lparr>h_patient_id := Some ''7'',
        h_breathing_rate := Some 12, h_avg_amplitude := Some 2\<rparr>) = Some 2"
    by simp
  have e: "fst (process_file
     (qr_example_with
        [''ID: 7'', ''Breathing Rate: 12 breaths/minute'', ''Average Amplitude: 2'']
        example_runs_text example_runs)
     ([], None, []) example_path) =
   [[(''patient_id'', PStr ''7''), (''age'', PInt 0), (''gender'', PInt 0),
      (''health_status'', PStr ''Unknown''), (''breathing_rate'', PFloat (Num 12)),
      (''avg_amplitude'', PFloat (Num 2)), (''max_amplitude'', PFloat (Num 0)),
      (''min_amplitude'', PFloat (Num 0)), (''avg_velocity'', PFloat (Num 2)),
      (''amplitude_variability'', PFloat (Num 1)),
      (''duration_variability'', PFloat (Num (1 / 3))),
      (''file_path'', PStr ''respiratory_data_1.csv'')]]"
    by (simp add: example_process_runs)
  note t = qr_session_record [where all_data = "[]" and out = "[]"
      and world = "qr_example_with
        [''ID: 7'', ''Breathing Rate: 12 breaths/minute'', ''Average Amplitude: 2'']
        example_runs_text example_runs"
      and file_path = example_path and avg = 2 and df = example_runs,
      THEN conjunct1, rule_format,
      OF qr_example_reads(1) example_header_full qr_example_reads(2) a
        example_runs_columns(3)]
  from e t show ?thesis by (rule conjI)
qed

text \<open>
  C6 as stated fails on a log whose header gives the average amplitude 0 and whose seven
  rows form runs of 2, 1, 1, 1 and 2 rows with durations 1, 0, 0, 0 and 2: the record has
  amplitude variability 0 and duration variability 1/3 (from the durations 1 and 2), while
  the standard deviation of the amplitudes divided by 0 is infinite and the coefficient of
  variation of the five run durations is 4/3.
\<close>

theorem qr_session_record_counterexample:
  "fst (load_qr_respiratory_data
     (qr_example_with
        [''ID: 7'', ''Breathing Rate: 12 breaths/minute'', ''Average Amplitude: 0'']
        example_runs_text example_runs)
     [example_path]) =
   Inr [[(''patient_id'', PStr ''7''), (''age'', PInt 0), (''gender'', PInt 0),
      (''health_status'', PStr ''Unknown''), (''breathing_rate'', PFloat (Num 12)),
      (''avg_amplitude'', PFloat (Num 0)), (''max_amplitude'', PFloat (Num 0)),
      (''min_amplitude'', PFloat (Num 0)), (''avg_velocity'', PFloat (Num 2)),
      (''amplitude_variability'', PFloat (Num 0)),
      (''duration_variability'', PFloat (Num (1 / 3))),
      (''file_path'', PStr ''respiratory_data_1.csv'')]]
   \<and> spec_amplitude_variability example_runs 0 = PosInf
   \<and> spec_duration_variability example_runs = Num (4 / 3)"
proof -
  have a: "spec_amplitude_variability example_runs 0 = PosInf"
    by (simp add: spec_amplitude_variability_def example_runs_columns example_std)
  have d: "spec_duration_variability example_runs = Num (4 / 3)"
    unfolding spec_duration_variability_def example_runs_groups Let_def
    by (simp add: example_runs_def example_std) (simp add: mean_def)
  show ?thesis
    by (simp add: load_qr_respiratory_data_def example_process_runs_zero a d)
qed

subsection \<open>Continuing after a failed item\<close>

text \<open>The records collected so far survive the processing of further files, a file
  adds at most one record, and every file is processed (it leaves one line on the console)
  whatever happened to the files before it.\<close>

lemma process_file_keeps:
  "\<exists>new. fst (process_file world (all_data, header_index, out) file_path) = all_data @ new
       \<and> length new \<le> 1"
  by (auto simp add: process_file_def try_bind_def split: sum.splits option.splits prod.splits)

lemma process_file_console:
  "\<exists>line. snd (snd (process_file world (all_data, header_index, out) file_path)) = out @ [line]"
  by (auto simp add: process_file_def try_bind_def split: sum.splits option.splits prod.splits)

lemma foldl_process_file_keeps:
  "\<exists>new. fst (foldl (process_file world) (all_data, header_index, out) files) = all_data @ new"
proof (induction files arbitrary: all_data header_index out)
  case Nil
  then show ?case by simp
next
  case (Cons f files)
  obtain a h o' where s: "process_file world (all_data, header_index, out) f = (a, h, o')"
    by (cases "process_file world (all_data, header_index, out) f")
  from process_file_keeps [of world all_data header_index out f] s
  obtain n1 where n1: "a = all_data @ n1" by auto
  from Cons.IH [of a h o'] obtain n2 where
    "fst (foldl (process_file world) (a, h, o') files) = a @ n2" by blast
  with n1 s show ?case by simp
qed

lemma foldl_process_file_console:
  "length (snd (snd (foldl (process_file world) (all_data, header_index, out) files)))
     = length out + length files"
proof (induction files arbitrary: all_data header_index out)
  case Nil
  then show ?case by simp
next
  case (Cons f files)
  obtain a h o' where s: "process_file world (all_data, header_index, out) f = (a, h, o')"
    by (cases "process_file world (all_data, header_index, out) f")
  from process_file_console [of world all_data header_index out f] s
  have "length o' = length out + 1" by auto
  with Cons.IH [of a h o'] s show ?case by simp
qed

text \<open>Each model is tried whatever happened to the ones before it: the console gets one
  line per model, and the last download of a file name that succeeds is on disk.\<close>

lemma download_loop_console:
  "length (snd (download_loop fetch ms (disk, out))) = length out + length ms"
  by (induction ms arbitrary: disk out)
     (auto simp add: download_file_def split: fetch_outcome.splits prod.splits sum.splits)

lemma download_main_second_after_failure:
  assumes "fetch (fst (models ! 0)) = FailsBeforeWrite e"
    and "fetch (fst (models ! 1)) = Received chunks"
  shows "fst (download_main fetch disk) (snd (models ! 1)) = Some (Binary (concat chunks))"
  using assms
  by (simp add: download_main_def models_def download_file_def Let_def)

text \<open>
  C4, on a log that has no \<^verbatim>\<open>Breathing Rate:\<close> line. The record of the file is appended,
  then the \<^verbatim>\<open>print\<close> that formats \<^verbatim>\<open>breathing_rate\<close> raises \<^verbatim>\<open>TypeError\<close>; the exception is
  caught and printed as an error for the file, and the function returns the record of the
  file it reported as failed.
\<close>

theorem qr_failed_file_record_kept:
  "load_qr_respiratory_data (qr_example [''ID: 7'', ''Average Amplitude: 2''])
     [example_path] =
   (Inr [[(''patient_id'', PStr ''7''), (''age'', PInt 0), (''gender'', PInt 0),
      (''health_status'', PStr ''Unknown''), (''breathing_rate'', PFloat (Num 0)),
      (''avg_amplitude'', PFloat (Num 2)), (''max_amplitude'', PFloat (Num 0)),
      (''min_amplitude'', PFloat (Num 0)), (''avg_velocity'', PFloat (Num 2)),
      (''amplitude_variability'', PFloat (Num 0.5)),
      (''duration_variability'', PFloat (Num 0)),
      (''file_path'', PStr ''respiratory_data_1.csv'')]],
    [ErrorLoading example_path TypeError])"
  by (simp add: load_qr_respiratory_data_def example_process_no_rate)

text \<open>
  C10, on a log without data rows whose header gives the average amplitude 2. The guard
  \<^verbatim>\<open>avg_amplitude > 0\<close> holds, \<^verbatim>\<open>np.std(amplitudes)\<close> is evaluated on the empty column and
  raises \<^verbatim>\<open>ZeroDivisionError\<close>; the file is reported as failed and, being the only file,
  the function raises \<^verbatim>\<open>ValueError\<close>. The duration variability of the same log is 0: its
  guard tests that the list is not empty, which the guard of the amplitude variability
  does not.
\<close>

theorem qr_empty_log_divides_by_zero:
  "load_qr_respiratory_data
     (qr_example_with
        [''ID: 7'', ''Breathing Rate: 12 breaths/minute'', ''Average Amplitude: 2''] [] [])
     [example_path] =
   (Inl ValueError, [ErrorLoading example_path ZeroDivisionError])
   \<and> qr_amplitude_variability [] (Some 2) = Inl ZeroDivisionError
   \<and> qr_duration_variability [] = Num 0"
  by (simp add: load_qr_respiratory_data_def example_process_no_rows
      qr_amplitude_variability_eq qr_duration_variability_eq)

end
